theory Spec2Isabelle
  imports Complex_Main
begin

section \<open>The qsonic-fit script (qsonic/scripts/qsonic\_fit.py)\<close>

text \<open>
  The script drives collaborators of the qsonic package (catalog, io, spectrum, masks,
  picca\_continuum, mpi\_utils) that are not part of the file. They are the fields of a
  record \<open>env\<close>, so that every theorem holds for whatever they compute. What the
  script itself does is modelled in full: which collaborator it calls, on which object,
  with which arguments, in which order, and where an exception leaves it.
\<close>

subsection \<open>Exceptions\<close>

text \<open>
  \<open>IndexError\<close>, \<open>ValueError\<close> and \<open>Exception\<close> (any other exception with its message)
  are instances of Python's class Exception; \<open>SystemExit\<close> and \<open>KeyboardInterrupt\<close>
  derive from BaseException only, so \<^verbatim>\<open>except Exception\<close> lets them pass.
\<close>

datatype pyexn =
    IndexError
  | ValueError string
  | Exception string
  | SystemExit
  | KeyboardInterrupt

fun is_Exception :: "pyexn \<Rightarrow> bool" where
  "is_Exception IndexError = True"
| "is_Exception (ValueError m) = True"
| "is_Exception (Exception m) = True"
| "is_Exception SystemExit = False"
| "is_Exception KeyboardInterrupt = False"

text \<open>The text of \<^verbatim>\<open>f"{e}"\<close>.\<close>

fun exn_str :: "pyexn \<Rightarrow> string" where
  "exn_str IndexError = ''list index out of range''"
| "exn_str (ValueError m) = m"
| "exn_str (Exception m) = m"
| "exn_str SystemExit = ''''"
| "exn_str KeyboardInterrupt = ''''"

subsection \<open>Runs: a result or an exception, and the calls made on the way\<close>

text \<open>
  A run of a piece of the script is a pair: what it returns (\<open>Inr\<close>) or raises
  (\<open>Inl\<close>), and the list of the calls to collaborators it made, oldest first. The
  calls made before an exception stay in the list.
\<close>

type_synonym ('e, 'a) run = "(pyexn + 'a) \<times> 'e list"

definition ret :: "'a \<Rightarrow> ('e, 'a) run" where
  "ret x = (Inr x, [])"

definition raise :: "pyexn \<Rightarrow> ('e, 'a) run" where
  "raise e = (Inl e, [])"

text \<open>A call that cannot fail (logging), and a call that returns or raises.\<close>

definition emit :: "'e \<Rightarrow> ('e, unit) run" where
  "emit ev = (Inr (), [ev])"

definition call :: "'e \<Rightarrow> pyexn + 'a \<Rightarrow> ('e, 'a) run" where
  "call ev r = (r, [ev])"

text \<open>Sequencing: the second statement runs only if the first one did not raise.\<close>

fun and_then :: "('e, 'a) run \<Rightarrow> ('a \<Rightarrow> ('e, 'b) run) \<Rightarrow> ('e, 'b) run" where
  "and_then (Inl e, t) f = (Inl e, t)"
| "and_then (Inr x, t) f = (fst (f x), t @ snd (f x))"

text \<open>\<^verbatim>\<open>for x in xs: ...\<close> where the body mutates \<open>x\<close>: the list of the mutated objects.\<close>

fun for_each :: "('a \<Rightarrow> ('e, 'b) run) \<Rightarrow> 'a list \<Rightarrow> ('e, 'b list) run" where
  "for_each f [] = ret []"
| "for_each f (x # xs) =
     and_then (f x) (\<lambda>y. and_then (for_each f xs) (\<lambda>ys. ret (y # ys)))"

text \<open>\<^verbatim>\<open>[x for x in xs if p(x)]\<close> where \<open>p\<close> is a call that may raise.\<close>

fun filter_run :: "('a \<Rightarrow> ('e, bool) run) \<Rightarrow> 'a list \<Rightarrow> ('e, 'a list) run" where
  "filter_run p [] = ret []"
| "filter_run p (x # xs) =
     and_then (p x) (\<lambda>b. and_then (filter_run p xs) (\<lambda>ys. ret (if b then x # ys else ys)))"

subsection \<open>The options (argparse.Namespace)\<close>

text \<open>
  The parser is assembled by functions of other modules; the record holds the options
  the script reads. Floats are modelled by the reals they denote: the script compares
  two of them, tests one for truth and subtracts two, and hands the rest on. An option
  that may be None is an \<open>option\<close>.
\<close>

record args =
  input_dir :: string
  catalog :: string
  keep_surveys :: "string list"
  arms :: "string list"
  mock_analysis :: bool
  skip_resomat :: bool
  outdir :: "string option"
  save_by_hpx :: bool
  coadd_arms :: bool
  wave1 :: real
  wave2 :: real
  forest_w1 :: real
  forest_w2 :: real
  sky_mask :: "string option"
  bal_mask :: bool
  dla_mask :: "string option"
  min_rsnr :: real
  skip :: "real option"
  keep_nonforest_pixels :: bool

text \<open>Python's truth value of an optional string and of an optional float.\<close>

fun truthy_str :: "string option \<Rightarrow> bool" where
  "truthy_str None = False"
| "truthy_str (Some s) = (s \<noteq> [])"

fun truthy_float :: "real option \<Rightarrow> bool" where
  "truthy_float None = False"
| "truthy_float (Some x) = (x \<noteq> 0)"

subsection \<open>Objects, maskers and calls\<close>

text \<open>
  A Spectrum object is a pair of its identity and its current state. The identity is
  the number of the object in the order of creation; a method that mutates the object
  changes the state and keeps the identity. No two lists of the script share an object
  with different states, so a list of such pairs stands for a Python list of references.
\<close>

type_synonym 's obj = "nat \<times> 's"

text \<open>
  The maskers list holds a SkyMask instance, the class BALMask itself, and a DLAMask
  instance.
\<close>

datatype ('sky, 'dla) masker = SkyMasker 'sky | BALMaskClass | DLAMasker 'dla

datatype mkind = Sky | BAL | DLA

fun kind :: "('sky, 'dla) masker \<Rightarrow> mkind" where
  "kind (SkyMasker m) = Sky"
| "kind BALMaskClass = BAL"
| "kind (DLAMasker m) = DLA"

datatype loglevel = Info | Error

datatype logmsg =
    Reading_spectra
  | All_spectra_are_read
  | Reading_sky_mask
  | Checking_BAL_mask
  | Reading_DLA_mask
  | Applying_masks
  | Masks_are_applied
  | Removing_short_spectra
  | Initializing_continuum_fitter
  | Fitting_continuum
  | Coadding_arms
  | Continuum_fitting_took
  | Saving_deltas
  | Message string

text \<open>
  The calls the script makes. \<open>Log rank level msg\<close> is \<^verbatim>\<open>logging_mpi(msg, rank, level)\<close>;
  the minutes that two of the messages print are left out. A call on a Spectrum carries the
  identity of the object; \<open>DropShortArms\<close> also carries the arguments, \<open>None\<close> for the call
  without arguments; \<open>SaveDeltas\<close> carries the objects handed over, with their states.
\<close>

datatype ('c, 's, 't) event =
    Log nat loglevel logmsg
  | MpiParse nat
  | Makedirs string
  | ReadCatalog string
  | SetBlinding
  | NewSkyMask string
  | CheckCatalog 'c
  | NewDLAMask string "'t list" nat real
  | ReadSpectra 'c
  | SetForestRegion nat
  | RemoveNonforestPixels nat
  | CommReduce nat
  | MaskerApply mkind nat
  | DropShortArms nat "(real \<times> real \<times> real option) option"
  | IsLong nat
  | SetSmoothIvar nat
  | NewFitter
  | Iterate "nat list"
  | ValidSpectra "nat list"
  | CoaddArmsForest nat
  | SaveDeltas "(nat \<times> 's) list"

subsection \<open>The collaborators\<close>

text \<open>
  Every function or method the script calls, as a function of its arguments that returns
  or raises. A method of a Spectrum takes the state of the object last and returns the new
  state; \<open>rsnr\<close>, \<open>valid\<close>, \<open>varlss_interp\<close> and \<open>TARGETID\<close> are attribute reads.
  \<open>iterate\<close> mutates the fitter and the Spectrum objects of the list in place: it returns
  the new fitter and, for each position of the list, the new state of the object there.
\<close>

record ('c, 's, 't, 'sky, 'dla, 'q, 'v) env =
  Get_rank :: nat
  Get_size :: nat
  mpi_parse :: "nat \<Rightarrow> pyexn + args"
  os_makedirs :: "string \<Rightarrow> pyexn + unit"
  mpi_read_local_qso_catalog ::
    "string \<Rightarrow> nat \<Rightarrow> nat \<Rightarrow> bool \<Rightarrow> string list \<Rightarrow> pyexn + 'c list"
  set_blinding :: "'c list \<Rightarrow> args \<Rightarrow> pyexn + unit"
  SkyMask :: "string \<Rightarrow> pyexn + 'sky"
  check_catalog :: "'c \<Rightarrow> pyexn + unit"
  TARGETID :: "'c \<Rightarrow> 't list"
  DLAMask :: "string \<Rightarrow> 't list \<Rightarrow> nat \<Rightarrow> real \<Rightarrow> pyexn + 'dla"
  read_spectra_onehealpix ::
    "'c \<Rightarrow> string \<Rightarrow> string list \<Rightarrow> bool \<Rightarrow> bool \<Rightarrow> pyexn + 's list"
  set_forest_region :: "real \<Rightarrow> real \<Rightarrow> real \<Rightarrow> real \<Rightarrow> 's \<Rightarrow> pyexn + 's"
  remove_nonforest_pixels :: "'s \<Rightarrow> pyexn + 's"
  rsnr :: "'s \<Rightarrow> real"
  comm_reduce :: "nat \<Rightarrow> pyexn + unit"
  sky_apply :: "'sky \<Rightarrow> 's \<Rightarrow> pyexn + 's"
  bal_apply :: "'s \<Rightarrow> pyexn + 's"
  dla_apply :: "'dla \<Rightarrow> 's \<Rightarrow> pyexn + 's"
  drop_short_arms :: "(real \<times> real \<times> real option) option \<Rightarrow> 's \<Rightarrow> pyexn + 's"
  is_long :: "real \<Rightarrow> real \<Rightarrow> 's \<Rightarrow> pyexn + bool"
  set_smooth_ivar :: "'s \<Rightarrow> pyexn + 's"
  PiccaContinuumFitter :: "args \<Rightarrow> pyexn + 'q"
  iterate :: "'q \<Rightarrow> 's list \<Rightarrow> pyexn + 'q \<times> (nat \<Rightarrow> 's)"
  varlss_interp :: "'q \<Rightarrow> 'v"
  valid :: "'s \<Rightarrow> bool"
  coadd_arms_forest :: "'v \<Rightarrow> 's \<Rightarrow> pyexn + 's"
  save_deltas :: "'s list \<Rightarrow> string option \<Rightarrow> 'v \<Rightarrow> bool \<Rightarrow> nat \<Rightarrow> pyexn + unit"

text \<open>A method call on an object: the call is recorded, the state is replaced.\<close>

definition on_object ::
  "('c, 's, 't) event \<Rightarrow> ('s \<Rightarrow> pyexn + 's) \<Rightarrow> 's obj \<Rightarrow> (('c, 's, 't) event, 's obj) run" where
  "on_object ev f ob = and_then (call ev (f (snd ob))) (\<lambda>s. ret (fst ob, s))"

subsection \<open>remove\_short\_spectra (lines 179-188)\<close>

definition remove_short_spectra ::
  "('c, 's, 't, 'sky, 'dla, 'q, 'v) env \<Rightarrow> 's obj list \<Rightarrow> real \<Rightarrow> real \<Rightarrow> real option \<Rightarrow> nat
     \<Rightarrow> (('c, 's, 't) event, 's obj list) run" where
  "remove_short_spectra E spectra_list lya1 lya2 skip_ratio mpi_rank =
     (if \<not> truthy_float skip_ratio then ret spectra_list
      else
        and_then (emit (Log mpi_rank Info Removing_short_spectra)) (\<lambda>_.
        let dforest_wave = lya2 - lya1 in
        filter_run
          (\<lambda>spec. call (IsLong (fst spec)) (is_long E dforest_wave (the skip_ratio) (snd spec)))
          spectra_list))"

subsection \<open>mpi\_read\_spectra\_local\_queue (lines 42-90)\<close>

text \<open>Lines 74-80, the body of the loop over the Spectrum objects of one healpix.\<close>

definition forest_spec ::
  "('c, 's, 't, 'sky, 'dla, 'q, 'v) env \<Rightarrow> args \<Rightarrow> 's obj \<Rightarrow> (('c, 's, 't) event, 's obj) run" where
  "forest_spec E args spec =
     and_then
       (on_object (SetForestRegion (fst spec))
          (set_forest_region E (wave1 args) (wave2 args) (forest_w1 args) (forest_w2 args)) spec)
       (\<lambda>spec.
          if \<not> keep_nonforest_pixels args
          then on_object (RemoveNonforestPixels (fst spec)) (remove_nonforest_pixels E) spec
          else ret spec)"

text \<open>The objects that the reader creates, numbered from \<open>n\<close> on.\<close>

definition new_objects :: "nat \<Rightarrow> 's list \<Rightarrow> 's obj list" where
  "new_objects n states = zip [n ..< n + length states] states"

text \<open>
  Lines 68-83, the loop over the healpixels; \<open>n\<close> is the number of Spectrum objects
  created so far.
\<close>

fun read_local_queue ::
  "('c, 's, 't, 'sky, 'dla, 'q, 'v) env \<Rightarrow> args \<Rightarrow> nat \<Rightarrow> 'c list \<Rightarrow> 's obj list
     \<Rightarrow> (('c, 's, 't) event, 's obj list) run" where
  "read_local_queue E args n [] spectra_list = ret spectra_list"
| "read_local_queue E args n (cat # local_queue) spectra_list =
     and_then
       (call (ReadSpectra cat)
          (read_spectra_onehealpix E cat (input_dir args) (arms args)
             (mock_analysis args) (skip_resomat args)))
       (\<lambda>states.
     and_then (for_each (forest_spec E args) (new_objects n states)) (\<lambda>local_specs.
     read_local_queue E args (n + length states) local_queue
       (spectra_list @ filter (\<lambda>spec. rsnr E (snd spec) > min_rsnr args) local_specs)))"

definition mpi_read_spectra_local_queue ::
  "('c, 's, 't, 'sky, 'dla, 'q, 'v) env \<Rightarrow> 'c list \<Rightarrow> args \<Rightarrow> nat
     \<Rightarrow> (('c, 's, 't) event, 's obj list) run" where
  "mpi_read_spectra_local_queue E local_queue args mpi_rank =
     and_then (emit (Log mpi_rank Info Reading_spectra)) (\<lambda>_.
     and_then (read_local_queue E args 0 local_queue []) (\<lambda>spectra_list.
     and_then (call (CommReduce (length spectra_list)) (comm_reduce E (length spectra_list)))
       (\<lambda>nspec_all.
     and_then (emit (Log mpi_rank Info All_spectra_are_read)) (\<lambda>_.
     ret spectra_list))))"

subsection \<open>mpi\_read\_masks (lines 93-144)\<close>

text \<open>\<^verbatim>\<open>np.concatenate\<close> raises ValueError on an empty sequence of arrays.\<close>

definition np_concatenate :: "'t list list \<Rightarrow> ('e, 't list) run" where
  "np_concatenate arrays =
     (if arrays = [] then raise (ValueError ''need at least one array to concatenate'')
      else ret (concat arrays))"

text \<open>\<^verbatim>\<open>local_queue[0]\<close> raises IndexError on an empty list.\<close>

definition first_item :: "'c list \<Rightarrow> ('e, 'c) run" where
  "first_item local_queue = (case local_queue of [] \<Rightarrow> raise IndexError | cat # _ \<Rightarrow> ret cat)"

definition mpi_read_masks ::
  "('c, 's, 't, 'sky, 'dla, 'q, 'v) env \<Rightarrow> 'c list \<Rightarrow> args \<Rightarrow> nat
     \<Rightarrow> (('c, 's, 't) event, ('sky, 'dla) masker list) run" where
  "mpi_read_masks E local_queue args mpi_rank =
     and_then
       (if truthy_str (sky_mask args) then
          and_then (emit (Log mpi_rank Info Reading_sky_mask)) (\<lambda>_.
          and_then (call (NewSkyMask (the (sky_mask args))) (SkyMask E (the (sky_mask args))))
            (\<lambda>skymasker.
          ret ([] @ [SkyMasker skymasker])))
        else ret [])
       (\<lambda>maskers.
     and_then
       (if bal_mask args then
          and_then (emit (Log mpi_rank Info Checking_BAL_mask)) (\<lambda>_.
          and_then (first_item local_queue) (\<lambda>cat.
          and_then (call (CheckCatalog cat) (check_catalog E cat)) (\<lambda>_.
          ret (maskers @ [BALMaskClass]))))
        else ret maskers)
       (\<lambda>maskers.
     if truthy_str (dla_mask args) then
       and_then (emit (Log mpi_rank Info Reading_DLA_mask)) (\<lambda>_.
       and_then (np_concatenate (map (TARGETID E) local_queue)) (\<lambda>local_targetids.
       and_then
         (call (NewDLAMask (the (dla_mask args)) local_targetids mpi_rank 0.8)
            (DLAMask E (the (dla_mask args)) local_targetids mpi_rank 0.8))
         (\<lambda>dlamasker.
       ret (maskers @ [DLAMasker dlamasker]))))
     else ret maskers))"

subsection \<open>apply\_masks (lines 147-176)\<close>

text \<open>\<^verbatim>\<open>masker.apply(spec)\<close>, dispatched on the masker.\<close>

fun masker_apply ::
  "('c, 's, 't, 'sky, 'dla, 'q, 'v) env \<Rightarrow> ('sky, 'dla) masker \<Rightarrow> 's obj
     \<Rightarrow> (('c, 's, 't) event, 's obj) run" where
  "masker_apply E (SkyMasker m) spec = on_object (MaskerApply Sky (fst spec)) (sky_apply E m) spec"
| "masker_apply E BALMaskClass spec = on_object (MaskerApply BAL (fst spec)) (bal_apply E) spec"
| "masker_apply E (DLAMasker m) spec = on_object (MaskerApply DLA (fst spec)) (dla_apply E m) spec"

text \<open>Lines 172-173, the loop over the maskers for one Spectrum.\<close>

fun apply_maskers ::
  "('c, 's, 't, 'sky, 'dla, 'q, 'v) env \<Rightarrow> ('sky, 'dla) masker list \<Rightarrow> 's obj
     \<Rightarrow> (('c, 's, 't) event, 's obj) run" where
  "apply_maskers E [] spec = ret spec"
| "apply_maskers E (masker # maskers) spec =
     and_then (masker_apply E masker spec) (apply_maskers E maskers)"

text \<open>
  The Python function returns None and mutates the objects of the list; the model returns
  the list of the mutated objects.
\<close>

definition apply_masks ::
  "('c, 's, 't, 'sky, 'dla, 'q, 'v) env \<Rightarrow> ('sky, 'dla) masker list \<Rightarrow> 's obj list \<Rightarrow> nat
     \<Rightarrow> (('c, 's, 't) event, 's obj list) run" where
  "apply_masks E maskers spectra_list mpi_rank =
     (if maskers = [] then ret spectra_list
      else
        and_then (emit (Log mpi_rank Info Applying_masks)) (\<lambda>_.
        and_then
          (for_each
             (\<lambda>spec. and_then (apply_maskers E maskers spec)
                (on_object (DropShortArms (fst spec) None) (drop_short_arms E None)))
             spectra_list)
          (\<lambda>spectra_list.
        and_then (emit (Log mpi_rank Info Masks_are_applied)) (\<lambda>_.
        ret spectra_list))))"

subsection \<open>mpi\_run\_all (lines 191-253) and main (lines 256-271)\<close>

text \<open>
  Modelled from the spec: \<^verbatim>\<open>qsonic.spectrum.valid_spectra\<close> is not in the file. The spec
  keeps the valid spectra of the working set after the fit and excludes the others from
  everything that follows: the model is the filter, in order, by the validity of the
  Spectrum, a collaborator.
\<close>

definition valid_spectra ::
  "('c, 's, 't, 'sky, 'dla, 'q, 'v) env \<Rightarrow> 's obj list \<Rightarrow> 's obj list" where
  "valid_spectra E spectra_list = filter (\<lambda>spec. valid E (snd spec)) spectra_list"

text \<open>The objects of a list after a call that mutated them in place.\<close>

definition mutated :: "'s obj list \<Rightarrow> (nat \<Rightarrow> 's) \<Rightarrow> 's obj list" where
  "mutated spectra_list new_state =
     map (\<lambda>i. (fst (spectra_list ! i), new_state i)) [0 ..< length spectra_list]"

text \<open>
  The blocks of the function that work on the list of spectra, each with the lines it stands
  for. Lines 217-218: the smoothed inverse variance of every Spectrum.
\<close>

definition set_smooth_ivar_all ::
  "('c, 's, 't, 'sky, 'dla, 'q, 'v) env \<Rightarrow> 's obj list \<Rightarrow> (('c, 's, 't) event, 's obj list) run" where
  "set_smooth_ivar_all E spectra_list =
     for_each (\<lambda>spec. on_object (SetSmoothIvar (fst spec)) (set_smooth_ivar E) spec)
       spectra_list"

text \<open>Lines 223-232: the fitter and its iteration; the fitter and the mutated spectra.\<close>

definition fit_continuum ::
  "('c, 's, 't, 'sky, 'dla, 'q, 'v) env \<Rightarrow> args \<Rightarrow> 's obj list \<Rightarrow> nat
     \<Rightarrow> (('c, 's, 't) event, 'q \<times> 's obj list) run" where
  "fit_continuum E args spectra_list mpi_rank =
     and_then (emit (Log mpi_rank Info Initializing_continuum_fitter)) (\<lambda>_.
     and_then (call NewFitter (PiccaContinuumFitter E args)) (\<lambda>qcfit.
     and_then (emit (Log mpi_rank Info Fitting_continuum)) (\<lambda>_.
     and_then
       (call (Iterate (map fst spectra_list)) (iterate E qcfit (map snd spectra_list)))
       (\<lambda>fitted.
     ret (fst fitted, mutated spectra_list (snd fitted))))))"

text \<open>Lines 236-239: coadding the arms of every Spectrum of the list, if asked for.\<close>

definition coadd_arms_all ::
  "('c, 's, 't, 'sky, 'dla, 'q, 'v) env \<Rightarrow> args \<Rightarrow> 'q \<Rightarrow> 's obj list \<Rightarrow> nat
     \<Rightarrow> (('c, 's, 't) event, 's obj list) run" where
  "coadd_arms_all E args qcfit spectra_list mpi_rank =
     (if coadd_arms args then
        and_then (emit (Log mpi_rank Info Coadding_arms)) (\<lambda>_.
        for_each
          (\<lambda>spec. on_object (CoaddArmsForest (fst spec))
             (coadd_arms_forest E (varlss_interp E qcfit)) spec)
          spectra_list)
      else ret spectra_list)"

text \<open>Lines 242-243: the final cleaning.\<close>

definition final_cleaning ::
  "('c, 's, 't, 'sky, 'dla, 'q, 'v) env \<Rightarrow> args \<Rightarrow> 's obj list
     \<Rightarrow> (('c, 's, 't) event, 's obj list) run" where
  "final_cleaning E args spectra_list =
     for_each
       (\<lambda>spec. on_object
          (DropShortArms (fst spec) (Some (forest_w1 args, forest_w2 args, skip args)))
          (drop_short_arms E (Some (forest_w1 args, forest_w2 args, skip args))) spec)
       spectra_list"

text \<open>Lines 245-253: the two messages and the saving of the deltas.\<close>

definition save_all ::
  "('c, 's, 't, 'sky, 'dla, 'q, 'v) env \<Rightarrow> args \<Rightarrow> 'q \<Rightarrow> 's obj list \<Rightarrow> nat
     \<Rightarrow> (('c, 's, 't) event, unit) run" where
  "save_all E args qcfit spectra_list mpi_rank =
     and_then (emit (Log mpi_rank Info Continuum_fitting_took)) (\<lambda>_.
     and_then (emit (Log mpi_rank Info Saving_deltas)) (\<lambda>_.
     call (SaveDeltas spectra_list)
       (save_deltas E (map snd spectra_list) (outdir args) (varlss_interp E qcfit)
          (save_by_hpx args) mpi_rank)))"

text \<open>
  The function itself is modelled in four pieces, each the rest of the function from a line
  on. From line 234: the valid spectra, coadding, final cleaning, saving.
\<close>

definition run_from_valid ::
  "('c, 's, 't, 'sky, 'dla, 'q, 'v) env \<Rightarrow> args \<Rightarrow> 'q \<Rightarrow> 's obj list \<Rightarrow> nat
     \<Rightarrow> (('c, 's, 't) event, unit) run" where
  "run_from_valid E args qcfit spectra_list mpi_rank =
     and_then (emit (ValidSpectra (map fst spectra_list))) (\<lambda>_.
     and_then (coadd_arms_all E args qcfit (valid_spectra E spectra_list) mpi_rank)
       (\<lambda>spectra_list.
     and_then (final_cleaning E args spectra_list) (\<lambda>spectra_list.
     save_all E args qcfit spectra_list mpi_rank)))"

text \<open>From line 213: short spectra, smoothed inverse variance, the fit.\<close>

definition run_from_remove_short ::
  "('c, 's, 't, 'sky, 'dla, 'q, 'v) env \<Rightarrow> args \<Rightarrow> 's obj list \<Rightarrow> nat
     \<Rightarrow> (('c, 's, 't) event, unit) run" where
  "run_from_remove_short E args spectra_list mpi_rank =
     and_then
       (remove_short_spectra E spectra_list (forest_w1 args) (forest_w2 args) (skip args)
          mpi_rank)
       (\<lambda>spectra_list.
     and_then (set_smooth_ivar_all E spectra_list) (\<lambda>spectra_list.
     and_then (fit_continuum E args spectra_list mpi_rank) (\<lambda>fitted.
     run_from_valid E args (fst fitted) (snd fitted) mpi_rank)))"

text \<open>From line 210: the masks.\<close>

definition run_from_apply_masks ::
  "('c, 's, 't, 'sky, 'dla, 'q, 'v) env \<Rightarrow> args \<Rightarrow> ('sky, 'dla) masker list \<Rightarrow> 's obj list
     \<Rightarrow> nat \<Rightarrow> (('c, 's, 't) event, unit) run" where
  "run_from_apply_masks E args maskers spectra_list mpi_rank =
     and_then (apply_masks E maskers spectra_list mpi_rank) (\<lambda>spectra_list.
     run_from_remove_short E args spectra_list mpi_rank)"

text \<open>
  Lines 192-208: the options, the output directory, the catalog, blinding, the maskers and the
  spectra. The communicator is part of \<open>E\<close>.
\<close>

definition read_inputs ::
  "('c, 's, 't, 'sky, 'dla, 'q, 'v) env \<Rightarrow> nat \<Rightarrow> nat
     \<Rightarrow> (('c, 's, 't) event, args \<times> ('sky, 'dla) masker list \<times> 's obj list) run" where
  "read_inputs E mpi_rank mpi_size =
     and_then (call (MpiParse mpi_rank) (mpi_parse E mpi_rank)) (\<lambda>args.
     and_then
       (if mpi_rank = 0 \<and> truthy_str (outdir args)
        then call (Makedirs (the (outdir args))) (os_makedirs E (the (outdir args)))
        else ret ())
       (\<lambda>_.
     and_then
       (call (ReadCatalog (catalog args))
          (mpi_read_local_qso_catalog E (catalog args) mpi_rank mpi_size (mock_analysis args)
             (keep_surveys args)))
       (\<lambda>local_queue.
     and_then (call SetBlinding (set_blinding E local_queue args)) (\<lambda>_.
     and_then (mpi_read_masks E local_queue args mpi_rank) (\<lambda>maskers.
     and_then (mpi_read_spectra_local_queue E local_queue args mpi_rank) (\<lambda>spectra_list.
     ret (args, maskers, spectra_list)))))))"

text \<open>The whole function: lines 192-208, then the rest from line 210.\<close>

definition mpi_run_all ::
  "('c, 's, 't, 'sky, 'dla, 'q, 'v) env \<Rightarrow> nat \<Rightarrow> nat \<Rightarrow> (('c, 's, 't) event, unit) run" where
  "mpi_run_all E mpi_rank mpi_size =
     and_then (read_inputs E mpi_rank mpi_size) (\<lambda>inputs.
     run_from_apply_masks E (fst inputs) (fst (snd inputs)) (snd (snd inputs)) mpi_rank)"

text \<open>
  \<^verbatim>\<open>except Exception\<close> catches the instances of Exception, logs the text of the exception
  at level error and returns 1; any other exception leaves \<open>main\<close>.
\<close>

definition main :: "('c, 's, 't, 'sky, 'dla, 'q, 'v) env \<Rightarrow> (('c, 's, 't) event, int) run" where
  "main E =
     (let mpi_rank = Get_rank E; mpi_size = Get_size E in
      case mpi_run_all E mpi_rank mpi_size of
        (Inr _, t) \<Rightarrow> (Inr 0, t)
      | (Inl e, t) \<Rightarrow>
          if is_Exception e then (Inr 1, t @ [Log mpi_rank Error (Message (exn_str e))])
          else (Inl e, t))"

subsection \<open>The DLA masker (qsonic.masks.DLAMask)\<close>

text \<open>
  Modelled from the spec: the class \<^verbatim>\<open>qsonic.masks.DLAMask\<close> is not in the file; the script
  only constructs it, with the keyword \<^verbatim>\<open>dla_mask_limit=0.8\<close>, and calls its \<^verbatim>\<open>apply\<close>. The
  spec: DLA masking divides flux and inverse variance by the squared damping-wing
  transmission profile, clipped against a minimum transmission floor (configurable, default
  0.8) below which the affected pixels are masked outright rather than corrected. The floor
  is a keyword parameter of the constructor, \<open>None\<close> when the caller leaves it out; an
  inverse variance of 0 marks a masked pixel.
\<close>

definition dla_mask_limit :: "real option \<Rightarrow> real" where
  "dla_mask_limit keyword = (case keyword of None \<Rightarrow> 0.8 | Some x \<Rightarrow> x)"

record pixel =
  pixel_flux :: real
  pixel_ivar :: real

definition dla_pixel :: "real \<Rightarrow> real \<Rightarrow> pixel \<Rightarrow> pixel" where
  "dla_pixel limit transmission p =
     (if transmission < limit then p\<lparr>pixel_ivar := 0\<rparr>
      else \<lparr>pixel_flux = pixel_flux p / transmission ^ 2,
            pixel_ivar = pixel_ivar p / transmission ^ 2\<rparr>)"

subsection \<open>What the theorems speak about\<close>

text \<open>
  The loop of lines 68-83 without the selection of line 83: all the Spectrum objects that
  the reader produces, with their forest region set. The selection by \<open>rsnr\<close> is compared
  with it.
\<close>

fun read_all_spectra ::
  "('c, 's, 't, 'sky, 'dla, 'q, 'v) env \<Rightarrow> args \<Rightarrow> nat \<Rightarrow> 'c list
     \<Rightarrow> (('c, 's, 't) event, 's obj list) run" where
  "read_all_spectra E args n [] = ret []"
| "read_all_spectra E args n (cat # local_queue) =
     and_then
       (call (ReadSpectra cat)
          (read_spectra_onehealpix E cat (input_dir args) (arms args)
             (mock_analysis args) (skip_resomat args)))
       (\<lambda>states.
     and_then (for_each (forest_spec E args) (new_objects n states)) (\<lambda>local_specs.
     and_then (read_all_spectra E args (n + length states) local_queue) (\<lambda>others.
     ret (local_specs @ others))))"

text \<open>The Spectrum objects that a call touches.\<close>

fun event_ids :: "('c, 's, 't) event \<Rightarrow> nat set" where
  "event_ids (SetForestRegion i) = {i}"
| "event_ids (RemoveNonforestPixels i) = {i}"
| "event_ids (MaskerApply k i) = {i}"
| "event_ids (DropShortArms i a) = {i}"
| "event_ids (IsLong i) = {i}"
| "event_ids (SetSmoothIvar i) = {i}"
| "event_ids (CoaddArmsForest i) = {i}"
| "event_ids (Iterate ids) = set ids"
| "event_ids (ValidSpectra ids) = set ids"
| "event_ids (SaveDeltas spectra_list) = fst ` set spectra_list"
| "event_ids _ = {}"

text \<open>
  The stages of the pipeline, in the order of the data flow, and the stage that each call
  belongs to. The two calls of \<open>drop_short_arms\<close> differ by their arguments.
\<close>

datatype stage =
    Setup
  | Catalog
  | Blinding
  | Maskers
  | Reading
  | Masking
  | Short_removal
  | Smoothing
  | Fitting
  | Validity
  | Coadding
  | Final_cleaning
  | Saving
  | Reporting

fun stage_rank :: "stage \<Rightarrow> nat" where
  "stage_rank Setup = 0"
| "stage_rank Catalog = 1"
| "stage_rank Blinding = 2"
| "stage_rank Maskers = 3"
| "stage_rank Reading = 4"
| "stage_rank Masking = 5"
| "stage_rank Short_removal = 6"
| "stage_rank Smoothing = 7"
| "stage_rank Fitting = 8"
| "stage_rank Validity = 9"
| "stage_rank Coadding = 10"
| "stage_rank Final_cleaning = 11"
| "stage_rank Saving = 12"
| "stage_rank Reporting = 13"

fun msg_stage :: "logmsg \<Rightarrow> stage" where
  "msg_stage Reading_spectra = Reading"
| "msg_stage All_spectra_are_read = Reading"
| "msg_stage Reading_sky_mask = Maskers"
| "msg_stage Checking_BAL_mask = Maskers"
| "msg_stage Reading_DLA_mask = Maskers"
| "msg_stage Applying_masks = Masking"
| "msg_stage Masks_are_applied = Masking"
| "msg_stage Removing_short_spectra = Short_removal"
| "msg_stage Initializing_continuum_fitter = Fitting"
| "msg_stage Fitting_continuum = Fitting"
| "msg_stage Coadding_arms = Coadding"
| "msg_stage Continuum_fitting_took = Final_cleaning"
| "msg_stage Saving_deltas = Saving"
| "msg_stage (Message m) = Reporting"

fun stage_of :: "('c, 's, 't) event \<Rightarrow> stage" where
  "stage_of (Log r l m) = msg_stage m"
| "stage_of (MpiParse r) = Setup"
| "stage_of (Makedirs d) = Setup"
| "stage_of (ReadCatalog f) = Catalog"
| "stage_of SetBlinding = Blinding"
| "stage_of (NewSkyMask f) = Maskers"
| "stage_of (CheckCatalog c) = Maskers"
| "stage_of (NewDLAMask f ids r x) = Maskers"
| "stage_of (ReadSpectra c) = Reading"
| "stage_of (SetForestRegion i) = Reading"
| "stage_of (RemoveNonforestPixels i) = Reading"
| "stage_of (CommReduce n) = Reading"
| "stage_of (MaskerApply k i) = Masking"
| "stage_of (DropShortArms i None) = Masking"
| "stage_of (DropShortArms i (Some a)) = Final_cleaning"
| "stage_of (IsLong i) = Short_removal"
| "stage_of (SetSmoothIvar i) = Smoothing"
| "stage_of NewFitter = Fitting"
| "stage_of (Iterate ids) = Fitting"
| "stage_of (ValidSpectra ids) = Validity"
| "stage_of (CoaddArmsForest i) = Coadding"
| "stage_of (SaveDeltas spectra_list) = Saving"

definition stages :: "('c, 's, 't) event list \<Rightarrow> nat list" where
  "stages t = map (\<lambda>ev. stage_rank (stage_of ev)) t"


definition from_stage :: "stage \<Rightarrow> ('c, 's, 't) event list \<Rightarrow> bool" where
  "from_stage S t = (sorted (stages t) \<and> list_all (\<lambda>k. stage_rank S \<le> k) (stages t))"

subsection \<open>Test doubles\<close>

text \<open>
  A small Spectrum for the concrete runs below: its signal-to-noise summary, for each arm
  the inverse variances of its pixels (0 marks a masked pixel), and whether the fit was
  valid.
\<close>

record spectrum =
  snr :: real
  pixels :: "(string \<times> real list) list"
  fit_ok :: bool

definition valid_pixels :: "real list \<Rightarrow> nat" where
  "valid_pixels ivar = length (filter (\<lambda>v. v \<noteq> 0) ivar)"

text \<open>
  Modelled from the spec: \<^verbatim>\<open>Spectrum.drop_short_arms\<close> is not in the file. The spec says
  that an arm left with fewer than a minimum valid-pixel count is dropped from the spectrum
  entirely; the minimum is a parameter.
\<close>

definition drop_arms :: "nat \<Rightarrow> spectrum \<Rightarrow> spectrum" where
  "drop_arms min_pixels s =
     s\<lparr>pixels := filter (\<lambda>arm. min_pixels \<le> valid_pixels (snd arm)) (pixels s)\<rparr>"

text \<open>A sky mask that zeroes the inverse variance of pixel \<open>k\<close> of every arm.\<close>

definition mask_pixel :: "nat \<Rightarrow> spectrum \<Rightarrow> spectrum" where
  "mask_pixel k s = s\<lparr>pixels := map (\<lambda>arm. (fst arm, (snd arm)[k := 0])) (pixels s)\<rparr>"

definition demo_args :: args where
  "demo_args =
     \<lparr>input_dir = ''in'', catalog = ''cat.fits'', keep_surveys = [''all''],
      arms = [''B'', ''R''], mock_analysis = False, skip_resomat = False,
      outdir = Some ''out'', save_by_hpx = False, coadd_arms = True,
      wave1 = 3600, wave2 = 6000, forest_w1 = 1040, forest_w2 = 1200,
      sky_mask = Some ''sky.txt'', bal_mask = True, dla_mask = Some ''dla.fits'',
      min_rsnr = 1, skip = Some (1 / 50), keep_nonforest_pixels = False\<rparr>"

text \<open>
  A catalog slice is a list of rows, a target identifier with the Spectrum that the reader
  returns for it. The collaborators never raise, unless a field is replaced.
\<close>

definition demo_env ::
  "args \<Rightarrow> (nat \<times> spectrum) list list
     \<Rightarrow> ((nat \<times> spectrum) list, spectrum, nat, nat, real, unit, unit) env" where
  "demo_env a queue =
     \<lparr>Get_rank = 0, Get_size = 1,
      mpi_parse = (\<lambda>r. Inr a),
      os_makedirs = (\<lambda>d. Inr ()),
      mpi_read_local_qso_catalog = (\<lambda>f r n m k. Inr queue),
      set_blinding = (\<lambda>q b. Inr ()),
      SkyMask = (\<lambda>f. Inr 2),
      check_catalog = (\<lambda>c. Inr ()),
      TARGETID = map fst,
      DLAMask = (\<lambda>f ids r x. Inr x),
      read_spectra_onehealpix = (\<lambda>c d b m r. Inr (map snd c)),
      set_forest_region = (\<lambda>w1 w2 f1 f2 s. Inr s),
      remove_nonforest_pixels = Inr,
      rsnr = snr,
      comm_reduce = (\<lambda>n. Inr ()),
      sky_apply = (\<lambda>k s. Inr (mask_pixel k s)),
      bal_apply = Inr,
      dla_apply = (\<lambda>x s. Inr s),
      drop_short_arms = (\<lambda>b s. Inr (drop_arms 2 s)),
      is_long = (\<lambda>d r s. Inr (r * d < real (length (concat (map snd (pixels s)))))),
      set_smooth_ivar = Inr,
      PiccaContinuumFitter = (\<lambda>b. Inr ()),
      iterate = (\<lambda>q states. Inr (q, (\<lambda>i. states ! i))),
      varlss_interp = (\<lambda>q. ()),
      valid = fit_ok,
      coadd_arms_forest = (\<lambda>v s. Inr s),
      save_deltas = (\<lambda>l d v h r. Inr ())\<rparr>"

definition spec_a :: spectrum where
  "spec_a = \<lparr>snr = 3, pixels = [(''B'', [1, 1, 1]), (''R'', [1, 1, 1, 1])], fit_ok = True\<rparr>"

definition spec_b :: spectrum where
  "spec_b = \<lparr>snr = 1 / 2, pixels = [(''B'', [1, 1, 1])], fit_ok = True\<rparr>"

definition spec_c :: spectrum where
  "spec_c = \<lparr>snr = 2, pixels = [(''B'', [0, 0, 1]), (''R'', [1, 1, 1])], fit_ok = False\<rparr>"

definition spec_d :: spectrum where
  "spec_d = \<lparr>snr = 2, pixels = [(''B'', [1, 1, 1, 1]), (''R'', [1, 1, 1, 1])], fit_ok = False\<rparr>"

text \<open>Two healpixels: the first with two rows, the second with one.\<close>

definition demo_queue :: "(nat \<times> spectrum) list list" where
  "demo_queue = [[(7, spec_a), (8, spec_b)], [(9, spec_d)]]"

section \<open>Properties\<close>

subsection \<open>Runs\<close>

lemma and_then_ret: "and_then (ret x) f = f x"
  by (simp add: ret_def)

lemma and_then_emit: "and_then (emit ev) f = (fst (f ()), ev # snd (f ()))"
  by (simp add: emit_def)

lemma and_then_raise: "and_then (raise e) f = raise e"
  by (simp add: raise_def)

lemma fst_and_then:
  "fst (and_then m f) = (case fst m of Inl e \<Rightarrow> Inl e | Inr x \<Rightarrow> fst (f x))"
  by (cases m; cases "fst m") auto

lemma snd_and_then:
  "snd (and_then m f) = (case fst m of Inl e \<Rightarrow> snd m | Inr x \<Rightarrow> snd m @ snd (f x))"
  by (cases m; cases "fst m") auto

lemma fst_ret: "fst (ret x) = Inr x" by (simp add: ret_def)
lemma snd_ret: "snd (ret x) = []" by (simp add: ret_def)
lemma fst_call: "fst (call ev r) = r" by (simp add: call_def)
lemma snd_call: "snd (call ev r) = [ev]" by (simp add: call_def)
lemma fst_emit: "fst (emit ev) = Inr ()" by (simp add: emit_def)
lemma snd_emit: "snd (emit ev) = [ev]" by (simp add: emit_def)

lemmas run_simps = fst_and_then snd_and_then fst_ret snd_ret fst_call snd_call fst_emit snd_emit

lemma filter_run_returns:
  "fst (filter_run p xs) = Inr ys \<Longrightarrow> ys = filter (\<lambda>x. fst (p x) = Inr True) xs"
  by (induction xs arbitrary: ys) (auto simp: run_simps split: sum.splits if_splits)

lemma filter_run_total:
  "\<forall>x\<in>set xs. \<exists>b. fst (p x) = Inr b
     \<Longrightarrow> fst (filter_run p xs) = Inr (filter (\<lambda>x. fst (p x) = Inr True) xs)"
  by (induction xs) (auto simp: run_simps split: sum.splits if_splits)

lemma filter_call_returns:
  "fst (filter_run (\<lambda>x. call (ev x) (q x)) xs) = Inr ys \<Longrightarrow> ys = filter (\<lambda>x. q x = Inr True) xs"
  using filter_run_returns [of "\<lambda>x. call (ev x) (q x)" xs ys] by (simp add: fst_call)

lemma filter_call_total:
  "\<forall>x\<in>set xs. \<exists>b. q x = Inr b
     \<Longrightarrow> fst (filter_run (\<lambda>x. call (ev x) (q x)) xs) = Inr (filter (\<lambda>x. q x = Inr True) xs)"
  using filter_run_total [of xs "\<lambda>x. call (ev x) (q x)"] by (simp add: fst_call)

text \<open>
  Claim C5. \<open>remove_short_spectra\<close> returns the list it was given, with no call made, when
  \<open>skip_ratio\<close> is absent or zero. Otherwise, if it returns, the result is the sublist, in the
  original order, of the spectra for which \<open>is_long\<close> holds of the difference
  \<open>lya2 - lya1\<close> and the ratio; and it returns whenever every call of \<open>is_long\<close> does.
\<close>

theorem remove_short_spectra_sublist:
  "(skip_ratio = None \<or> skip_ratio = Some 0 \<longrightarrow>
      remove_short_spectra E spectra_list lya1 lya2 skip_ratio mpi_rank = (Inr spectra_list, []))
   \<and> (skip_ratio = Some x \<and> x \<noteq> 0 \<longrightarrow>
        (\<forall>r. fst (remove_short_spectra E spectra_list lya1 lya2 skip_ratio mpi_rank) = Inr r \<longrightarrow>
           r = filter (\<lambda>spec. is_long E (lya2 - lya1) x (snd spec) = Inr True) spectra_list)
      \<and> ((\<forall>spec\<in>set spectra_list. \<exists>b. is_long E (lya2 - lya1) x (snd spec) = Inr b) \<longrightarrow>
           fst (remove_short_spectra E spectra_list lya1 lya2 skip_ratio mpi_rank) =
             Inr (filter (\<lambda>spec. is_long E (lya2 - lya1) x (snd spec) = Inr True) spectra_list)))"
proof (intro conjI impI allI)
  assume "skip_ratio = None \<or> skip_ratio = Some 0"
  then show "remove_short_spectra E spectra_list lya1 lya2 skip_ratio mpi_rank = (Inr spectra_list, [])"
    by (auto simp: remove_short_spectra_def ret_def)
next
  fix r
  assume "skip_ratio = Some x \<and> x \<noteq> 0"
    and "fst (remove_short_spectra E spectra_list lya1 lya2 skip_ratio mpi_rank) = Inr r"
  then show "r = filter (\<lambda>spec. is_long E (lya2 - lya1) x (snd spec) = Inr True) spectra_list"
    by (simp add: remove_short_spectra_def run_simps filter_call_returns)
next
  assume "skip_ratio = Some x \<and> x \<noteq> 0"
    and "\<forall>spec\<in>set spectra_list. \<exists>b. is_long E (lya2 - lya1) x (snd spec) = Inr b"
  then show "fst (remove_short_spectra E spectra_list lya1 lya2 skip_ratio mpi_rank) =
             Inr (filter (\<lambda>spec. is_long E (lya2 - lya1) x (snd spec) = Inr True) spectra_list)"
    by (simp add: remove_short_spectra_def run_simps filter_call_total)
qed

lemma demo_is_long:
  "is_long (demo_env a q) d r s = Inr (r * d < real (length (concat (map snd (pixels s)))))"
  by (simp add: demo_env_def)

theorem remove_short_spectra_sublist_witness:
  "(1 / 50 :: real) \<noteq> 0
   \<and> is_long (demo_env demo_args []) (1200 - 1040) (1 / 50) spec_a = Inr True
   \<and> is_long (demo_env demo_args []) (1200 - 1040) (1 / 50) spec_b = Inr False
   \<and> fst (remove_short_spectra (demo_env demo_args []) [(0, spec_a), (1, spec_b)] 1040 1200
           (Some (1 / 50)) 0) = Inr [(0, spec_a)]"
proof -
  have h: "\<forall>spec\<in>set [(0::nat, spec_a), (1, spec_b)].
         \<exists>b. is_long (demo_env demo_args []) (1200 - 1040) (1 / 50) (snd spec) = Inr b"
    by (simp add: demo_is_long)
  have nz: "(1 / 50 :: real) \<noteq> 0" by simp
  have "fst (remove_short_spectra (demo_env demo_args []) [(0, spec_a), (1, spec_b)] 1040 1200
           (Some (1 / 50)) 0) =
        Inr (filter (\<lambda>spec. is_long (demo_env demo_args []) (1200 - 1040) (1 / 50) (snd spec)
               = Inr True) [(0, spec_a), (1, spec_b)])"
    using remove_short_spectra_sublist
      [of "Some (1 / 50)" "demo_env demo_args []" "[(0, spec_a), (1, spec_b)]" 1040 1200 0
         "1 / 50"] h nz
    by blast
  then show ?thesis
    by (simp add: demo_is_long spec_a_def spec_b_def)
qed

text \<open>
  Claim C9. With an empty list of maskers \<open>apply_masks\<close> returns at once: no call is made,
  so \<open>drop_short_arms\<close> is not invoked, and every Spectrum keeps its state.
\<close>

theorem apply_masks_without_maskers:
  "apply_masks E [] spectra_list mpi_rank = (Inr spectra_list, [])"
  by (simp add: apply_masks_def ret_def)

lemma fst_raise: "fst (raise e) = Inl e" by (simp add: raise_def)
lemma snd_raise: "snd (raise e) = []" by (simp add: raise_def)

lemma fst_on_object:
  "fst (on_object ev f ob) = (case f (snd ob) of Inl e \<Rightarrow> Inl e | Inr s \<Rightarrow> Inr (fst ob, s))"
  by (simp add: on_object_def run_simps split: sum.splits)

lemma snd_on_object: "snd (on_object ev f ob) = [ev]"
  by (simp add: on_object_def run_simps split: sum.splits)

lemma for_each_returnsD:
  "fst (for_each f xs) = Inr ys \<Longrightarrow> list_all2 (\<lambda>x y. fst (f x) = Inr y) xs ys"
proof (induction xs arbitrary: ys)
  case Nil
  then show ?case by (auto simp: run_simps)
next
  case (Cons x xs)
  then show ?case
    by (auto simp: run_simps split: sum.splits)
qed

lemma for_each_returnsI:
  "list_all2 (\<lambda>x y. fst (f x) = Inr y) xs ys \<Longrightarrow> fst (for_each f xs) = Inr ys"
  by (induction xs ys rule: list_all2_induct) (auto simp: run_simps)

lemma for_each_calls:
  "fst (for_each f xs) = Inr ys \<Longrightarrow> snd (for_each f xs) = concat (map (\<lambda>x. snd (f x)) xs)"
proof (induction xs arbitrary: ys)
  case Nil
  then show ?case by (simp add: run_simps)
next
  case (Cons x xs)
  then show ?case
    by (auto simp: run_simps split: sum.splits)
qed


lemma first_item_simps:
  "first_item [] = (Inl IndexError, [])" "first_item (c # cs) = (Inr c, [])"
  by (simp_all add: first_item_def raise_def ret_def)

lemmas masks_simps = mpi_read_masks_def run_simps fst_raise snd_raise np_concatenate_def

lemma demo_fields:
  "Get_rank (demo_env a q) = 0"
  "Get_size (demo_env a q) = 1"
  "mpi_parse (demo_env a q) = (\<lambda>r. Inr a)"
  "os_makedirs (demo_env a q) = (\<lambda>d. Inr ())"
  "mpi_read_local_qso_catalog (demo_env a q) = (\<lambda>f r n m k. Inr q)"
  "set_blinding (demo_env a q) = (\<lambda>q b. Inr ())"
  "SkyMask (demo_env a q) = (\<lambda>f. Inr 2)"
  "check_catalog (demo_env a q) = (\<lambda>c. Inr ())"
  "TARGETID (demo_env a q) = map fst"
  "DLAMask (demo_env a q) = (\<lambda>f ids r x. Inr x)"
  "read_spectra_onehealpix (demo_env a q) = (\<lambda>c d b m r. Inr (map snd c))"
  "set_forest_region (demo_env a q) = (\<lambda>w1 w2 f1 f2 s. Inr s)"
  "remove_nonforest_pixels (demo_env a q) = Inr"
  "rsnr (demo_env a q) = snr"
  "comm_reduce (demo_env a q) = (\<lambda>n. Inr ())"
  "sky_apply (demo_env a q) = (\<lambda>k s. Inr (mask_pixel k s))"
  "bal_apply (demo_env a q) = Inr"
  "dla_apply (demo_env a q) = (\<lambda>x s. Inr s)"
  "drop_short_arms (demo_env a q) = (\<lambda>b s. Inr (drop_arms 2 s))"
  "set_smooth_ivar (demo_env a q) = Inr"
  "PiccaContinuumFitter (demo_env a q) = (\<lambda>b. Inr ())"
  "iterate (demo_env a q) = (\<lambda>f states. Inr (f, (\<lambda>i. states ! i)))"
  "varlss_interp (demo_env a q) = (\<lambda>f. ())"
  "valid (demo_env a q) = fit_ok"
  "coadd_arms_forest (demo_env a q) = (\<lambda>v s. Inr s)"
  "save_deltas (demo_env a q) = (\<lambda>l d v h r. Inr ())"
  by (simp_all add: demo_env_def)

lemma demo_args_fields:
  "sky_mask demo_args = Some ''sky.txt''" "bal_mask demo_args" "dla_mask demo_args = Some ''dla.fits''"
  "keep_nonforest_pixels demo_args = False" "min_rsnr demo_args = 1" "skip demo_args = Some (1 / 50)"
  "coadd_arms demo_args" "outdir demo_args = Some ''out''" "forest_w1 demo_args = 1040"
  "forest_w2 demo_args = 1200"
  by (simp_all add: demo_args_def)

lemma demo_read_masks:
  "mpi_read_masks (demo_env demo_args q) [[(7, spec_a)]] demo_args 0 =
     (Inr [SkyMasker 2, BALMaskClass, DLAMasker (8 / 10)],
      [Log 0 Info Reading_sky_mask, NewSkyMask ''sky.txt'', Log 0 Info Checking_BAL_mask,
       CheckCatalog [(7, spec_a)], Log 0 Info Reading_DLA_mask,
       NewDLAMask ''dla.fits'' [7] 0 (8 / 10)])"
  by (simp add: mpi_read_masks_def demo_fields demo_args_fields first_item_simps
      np_concatenate_def ret_def emit_def call_def)

lemma masker_apply_id:
  "fst (masker_apply E m spec) = Inr spec' \<Longrightarrow> fst spec' = fst spec"
  by (cases m) (auto simp: fst_on_object split: sum.splits)

lemma masker_apply_calls: "snd (masker_apply E m spec) = [MaskerApply (kind m) (fst spec)]"
  by (cases m) (simp_all add: snd_on_object)

lemma apply_maskers_id:
  "fst (apply_maskers E ms spec) = Inr spec' \<Longrightarrow> fst spec' = fst spec"
proof (induction ms arbitrary: spec)
  case Nil
  then show ?case by (simp add: run_simps)
next
  case (Cons m ms)
  then show ?case
    by (auto simp: run_simps split: sum.splits dest: masker_apply_id)
qed

lemma apply_maskers_calls:
  "fst (apply_maskers E ms spec) = Inr spec'
     \<Longrightarrow> snd (apply_maskers E ms spec) = map (\<lambda>m. MaskerApply (kind m) (fst spec)) ms"
proof (induction ms arbitrary: spec)
  case Nil
  then show ?case by (simp add: run_simps)
next
  case (Cons m ms)
  then show ?case
    by (auto simp: run_simps masker_apply_calls split: sum.splits dest: masker_apply_id)
qed

lemma apply_maskers_calls_prefix:
  "\<exists>n. snd (apply_maskers E ms spec) = take n (map (\<lambda>m. MaskerApply (kind m) (fst spec)) ms)"
proof (induction ms arbitrary: spec)
  case Nil
  then show ?case by (simp add: run_simps)
next
  case (Cons m ms)
  show ?case
  proof (cases "fst (masker_apply E m spec)")
    case (Inl e)
    then have "snd (apply_maskers E (m # ms) spec) =
        take 1 (map (\<lambda>m. MaskerApply (kind m) (fst spec)) (m # ms))"
      by (simp add: run_simps masker_apply_calls)
    then show ?thesis by blast
  next
    case (Inr spec1)
    then have id: "fst spec1 = fst spec" by (rule masker_apply_id)
    from Cons.IH [of spec1] obtain n where
      "snd (apply_maskers E ms spec1) = take n (map (\<lambda>m. MaskerApply (kind m) (fst spec1)) ms)"
      by blast
    with Inr id have "snd (apply_maskers E (m # ms) spec) =
        take (Suc n) (map (\<lambda>m. MaskerApply (kind m) (fst spec)) (m # ms))"
      by (simp add: run_simps masker_apply_calls)
    then show ?thesis by blast
  qed
qed

lemma for_each_returns_each:
  "fst (for_each f xs) = Inr ys \<Longrightarrow> x \<in> set xs \<Longrightarrow> \<exists>y. fst (f x) = Inr y"
  by (induction xs arbitrary: ys) (auto simp: run_simps split: sum.splits)

lemma apply_masks_calls:
  assumes "maskers \<noteq> []" and "fst (apply_masks E maskers spectra_list r) = Inr result"
  shows "snd (apply_masks E maskers spectra_list r) =
     [Log r Info Applying_masks]
     @ concat (map (\<lambda>spec. map (\<lambda>m. MaskerApply (kind m) (fst spec)) maskers
                         @ [DropShortArms (fst spec) None]) spectra_list)
     @ [Log r Info Masks_are_applied]"
proof -
  let ?f = "\<lambda>spec. and_then (apply_maskers E maskers spec)
                (on_object (DropShortArms (fst spec) None) (drop_short_arms E None))"
  from assms obtain ys where ys: "fst (for_each ?f spectra_list) = Inr ys"
    by (auto simp: apply_masks_def run_simps split: sum.splits)
  have each: "snd (?f spec) = map (\<lambda>m. MaskerApply (kind m) (fst spec)) maskers
                         @ [DropShortArms (fst spec) None]"
    if "spec \<in> set spectra_list" for spec
  proof -
    from for_each_returns_each [OF ys that] obtain y where "fst (?f spec) = Inr y" by blast
    then show ?thesis
      by (auto simp: run_simps snd_on_object apply_maskers_calls split: sum.splits)
  qed
  have "snd (for_each ?f spectra_list) = concat (map (\<lambda>spec. snd (?f spec)) spectra_list)"
    using ys by (rule for_each_calls)
  also have "\<dots> = concat (map (\<lambda>spec. map (\<lambda>m. MaskerApply (kind m) (fst spec)) maskers
                         @ [DropShortArms (fst spec) None]) spectra_list)"
    using each by (auto intro!: arg_cong [where f = concat] map_cong)
  finally show ?thesis
    using assms ys by (simp add: apply_masks_def run_simps)
qed

lemma all_masks_read:
  assumes "truthy_str (sky_mask args)" "bal_mask args" "truthy_str (dla_mask args)"
    and "fst (mpi_read_masks E local_queue args mpi_rank) = Inr maskers"
  shows "\<exists>sky dla. maskers = [SkyMasker sky, BALMaskClass, DLAMasker dla]"
  using assms
  by (cases local_queue)
    (auto simp: masks_simps first_item_simps split: sum.splits if_splits)

lemma apply_three_maskers:
  "fst (apply_maskers E [SkyMasker sky, BALMaskClass, DLAMasker dla] spec) = Inr spec' \<longleftrightarrow>
     (\<exists>s1 s2 s3. sky_apply E sky (snd spec) = Inr s1 \<and> bal_apply E s1 = Inr s2
        \<and> dla_apply E dla s2 = Inr s3 \<and> spec' = (fst spec, s3))"
  by (auto simp: run_simps fst_on_object split: sum.splits)


lemma demo_masked:
  "drop_arms 2 (mask_pixel 2 spec_a) =
     \<lparr>snr = 3, pixels = [(''B'', [1, 1, 0]), (''R'', [1, 1, 0, 1])], fit_ok = True\<rparr>"
  "drop_arms 2 (mask_pixel 2 spec_c) = \<lparr>snr = 2, pixels = [(''R'', [1, 1, 0])], fit_ok = False\<rparr>"
  by (simp_all add: drop_arms_def mask_pixel_def spec_a_def spec_c_def valid_pixels_def
      numeral_2_eq_2)

lemma demo_apply_masks:
  "fst (apply_masks (demo_env demo_args []) [SkyMasker 2, BALMaskClass, DLAMasker (8 / 10)]
     [(0, spec_a), (1, spec_c)] 0) =
   Inr [(0, drop_arms 2 (mask_pixel 2 spec_a)), (1, drop_arms 2 (mask_pixel 2 spec_c))]"
  by (simp add: apply_masks_def run_simps fst_on_object demo_fields)

lemma demo_queue_facts:
  "SkyMask (demo_env demo_args []) (the (sky_mask demo_args)) = Inr 2"
  "check_catalog (demo_env demo_args []) [(7, spec_a)] = Inr ()"
  "DLAMask (demo_env demo_args []) (the (dla_mask demo_args))
     (concat (map (TARGETID (demo_env demo_args [])) [[(7, spec_a)]])) 0 0.8 = Inr 0.8"
  "truthy_str (sky_mask demo_args)" "bal_mask demo_args" "truthy_str (dla_mask demo_args)"
  by (simp_all add: demo_fields demo_args_fields)

text \<open>
  Claim C10. With the BAL mask option set, \<open>mpi_read_masks\<close> calls \<open>check_catalog\<close> on the
  first element of the local queue and on nothing else: any such call is on the first
  element, and on a queue that is not empty, once the sky mask (if asked for) has been built,
  the call is made exactly once. On an empty queue the indexing raises IndexError and no
  check is made. An exception of the check leaves the function. When the check returns, the
  class \<open>BALMaskClass\<close> itself is appended after the sky masker (and the DLA masker, if asked
  for, after it); and whenever the function returns, the list holds the class, the queue was
  not empty and the check of its first element returned.
\<close>

theorem mpi_read_masks_bal_check:
  "bal_mask args \<longrightarrow>
     (\<forall>cat. CheckCatalog cat
           \<in> set (snd (mpi_read_masks (E :: ('c, 's, 't, 'sky, 'dla, 'q, 'v) env)
                       local_queue args mpi_rank)) \<longrightarrow>
        (\<exists>others. local_queue = cat # others))
   \<and> (local_queue = [] \<and>
        (truthy_str (sky_mask args) \<longrightarrow> (\<exists>m. SkyMask E (the (sky_mask args)) = Inr m)) \<longrightarrow>
        fst (mpi_read_masks E local_queue args mpi_rank) = Inl IndexError)
   \<and> (\<forall>maskers. fst (mpi_read_masks E local_queue args mpi_rank) = Inr maskers \<longrightarrow>
        BALMaskClass \<in> set maskers
        \<and> (\<exists>cat others. local_queue = cat # others \<and> check_catalog E cat = Inr ()
              \<and> CheckCatalog cat \<in> set (snd (mpi_read_masks E local_queue args mpi_rank))))
   \<and> (\<forall>cat others before m.
        local_queue = cat # others
        \<and> (\<not> truthy_str (sky_mask args) \<and> before = []
            \<or> truthy_str (sky_mask args) \<and> SkyMask E (the (sky_mask args)) = Inr m
               \<and> before = [SkyMasker m]) \<longrightarrow>
          count_list (snd (mpi_read_masks E local_queue args mpi_rank)) (CheckCatalog cat) = 1
        \<and> (\<forall>e. check_catalog E cat = Inl e \<longrightarrow>
              fst (mpi_read_masks E local_queue args mpi_rank) = Inl e)
        \<and> (check_catalog E cat = Inr () \<longrightarrow>
             (\<not> truthy_str (dla_mask args) \<longrightarrow>
                fst (mpi_read_masks E local_queue args mpi_rank) = Inr (before @ [BALMaskClass]))
           \<and> (truthy_str (dla_mask args) \<longrightarrow>
                (\<forall>d. DLAMask E (the (dla_mask args)) (concat (map (TARGETID E) local_queue))
                        mpi_rank 0.8 = Inr d \<longrightarrow>
                   fst (mpi_read_masks E local_queue args mpi_rank) =
                     Inr (before @ [BALMaskClass, DLAMasker d])))))"
proof (intro impI conjI allI)
  fix cat
  assume "bal_mask args"
    and "CheckCatalog cat \<in> set (snd (mpi_read_masks E local_queue args mpi_rank))"
  then show "\<exists>others. local_queue = cat # others"
    by (cases local_queue)
      (auto simp: masks_simps first_item_simps split: sum.splits if_splits)
next
  assume "bal_mask args"
    and "local_queue = [] \<and>
        (truthy_str (sky_mask args) \<longrightarrow> (\<exists>m. SkyMask E (the (sky_mask args)) = Inr m))"
  then show "fst (mpi_read_masks E local_queue args mpi_rank) = Inl IndexError"
    by (auto simp: masks_simps first_item_simps split: sum.splits if_splits)
next
  fix maskers
  assume b: "bal_mask args"
    and r: "fst (mpi_read_masks E local_queue args mpi_rank) = Inr maskers"
  from b r show "BALMaskClass \<in> set maskers"
    by (cases local_queue)
      (auto simp: masks_simps first_item_simps split: sum.splits if_splits)
  from b r show "\<exists>cat others. local_queue = cat # others \<and> check_catalog E cat = Inr ()
              \<and> CheckCatalog cat \<in> set (snd (mpi_read_masks E local_queue args mpi_rank))"
    by (cases local_queue)
      (auto simp: masks_simps first_item_simps split: sum.splits if_splits)
next
  fix cat others m and before :: "('sky, 'dla) masker list"
  assume b: "bal_mask args"
    and h: "local_queue = cat # others
        \<and> (\<not> truthy_str (sky_mask args) \<and> before = []
            \<or> truthy_str (sky_mask args) \<and> SkyMask E (the (sky_mask args)) = Inr m
               \<and> before = [SkyMasker m])"
  from b h show
    "count_list (snd (mpi_read_masks E local_queue args mpi_rank)) (CheckCatalog cat) = 1"
    by (auto simp: masks_simps first_item_simps split: sum.splits if_splits)
next
  fix cat others m e and before :: "('sky, 'dla) masker list"
  assume "bal_mask args"
    and "local_queue = cat # others
        \<and> (\<not> truthy_str (sky_mask args) \<and> before = []
            \<or> truthy_str (sky_mask args) \<and> SkyMask E (the (sky_mask args)) = Inr m
               \<and> before = [SkyMasker m])"
    and "check_catalog E cat = Inl e"
  then show "fst (mpi_read_masks E local_queue args mpi_rank) = Inl e"
    by (auto simp: masks_simps first_item_simps split: sum.splits if_splits)
next
  fix cat others m and before :: "('sky, 'dla) masker list"
  assume "bal_mask args"
    and "local_queue = cat # others
        \<and> (\<not> truthy_str (sky_mask args) \<and> before = []
            \<or> truthy_str (sky_mask args) \<and> SkyMask E (the (sky_mask args)) = Inr m
               \<and> before = [SkyMasker m])"
    and "check_catalog E cat = Inr ()"
    and "\<not> truthy_str (dla_mask args)"
  then show "fst (mpi_read_masks E local_queue args mpi_rank) = Inr (before @ [BALMaskClass])"
    by (auto simp: masks_simps first_item_simps split: sum.splits if_splits)
next
  fix cat others m d and before :: "('sky, 'dla) masker list"
  assume "bal_mask args"
    and "local_queue = cat # others
        \<and> (\<not> truthy_str (sky_mask args) \<and> before = []
            \<or> truthy_str (sky_mask args) \<and> SkyMask E (the (sky_mask args)) = Inr m
               \<and> before = [SkyMasker m])"
    and "check_catalog E cat = Inr ()"
    and "truthy_str (dla_mask args)"
    and "DLAMask E (the (dla_mask args)) (concat (map (TARGETID E) local_queue))
                        mpi_rank 0.8 = Inr d"
  then show "fst (mpi_read_masks E local_queue args mpi_rank) =
                     Inr (before @ [BALMaskClass, DLAMasker d])"
    by (auto simp: masks_simps first_item_simps split: sum.splits if_splits)
qed

theorem mpi_read_masks_bal_check_witness:
  "bal_mask demo_args
   \<and> SkyMask (demo_env demo_args []) (the (sky_mask demo_args)) = Inr 2
   \<and> fst (mpi_read_masks (demo_env demo_args []) [] demo_args 0) = Inl IndexError
   \<and> check_catalog (demo_env demo_args []) [(7, spec_a)] = Inr ()
   \<and> count_list (snd (mpi_read_masks (demo_env demo_args []) [[(7, spec_a)]] demo_args 0))
        (CheckCatalog [(7, spec_a)]) = 1
   \<and> fst (mpi_read_masks (demo_env demo_args []) [[(7, spec_a)]] demo_args 0) =
       Inr [SkyMasker 2, BALMaskClass, DLAMasker 0.8]"
proof -
  note f = demo_queue_facts
  note T0 = mpi_read_masks_bal_check
    [of demo_args "demo_env demo_args []" "[]" 0, THEN mp, OF f(5)]
  have e: "([] :: (nat \<times> spectrum) list list) = [] \<and>
        (truthy_str (sky_mask demo_args) \<longrightarrow>
           (\<exists>m. SkyMask (demo_env demo_args []) (the (sky_mask demo_args)) = Inr m))"
    using f(1) by blast
  note r0 = T0 [THEN conjunct2, THEN conjunct1, THEN mp, OF e]
  note T1 = mpi_read_masks_bal_check
    [of demo_args "demo_env demo_args []" "[[(7, spec_a)]]" 0, THEN mp, OF f(5)]
  have h: "[[(7, spec_a)]] = [(7::nat, spec_a)] # []
        \<and> (\<not> truthy_str (sky_mask demo_args) \<and> [SkyMasker 2] = []
            \<or> truthy_str (sky_mask demo_args)
               \<and> SkyMask (demo_env demo_args []) (the (sky_mask demo_args)) = Inr 2
               \<and> [SkyMasker (2::nat)] = [SkyMasker 2])"
    using f(1,4) by blast
  note D = T1 [THEN conjunct2, THEN conjunct2, THEN conjunct2,
      THEN spec, THEN spec, THEN spec, THEN spec, THEN mp, OF h]
  note c1 = D [THEN conjunct1]
  note r1 = D [THEN conjunct2, THEN conjunct2, THEN mp, OF f(2), THEN conjunct2, THEN mp,
      OF f(6), THEN spec, THEN mp, OF f(3)]
  from r0 c1 r1 f(1,2,5) show ?thesis by simp
qed


text \<open>
  Claim C6. The floor of the DLA masker is the keyword \<open>dla_mask_limit\<close> of its constructor,
  0.8 when left out; a pixel whose damping-wing transmission is below the floor is masked
  outright (its inverse variance set to 0, its flux kept), any other pixel is corrected.
  Every construction of a DLA masker by \<open>mpi_read_masks\<close> passes the floor 0.8, the default,
  whatever the options are, with the file of the option, the target identifiers of the whole
  local queue and the rank; so the masker masks the pixels of transmission below 0.8. With
  the DLA option set and a queue that is not empty, once the sky and BAL parts have returned,
  the constructor is called exactly once; when it returns the function returns the list with
  the new masker at the end, and when it raises the exception leaves the function. Whenever
  the function returns with the option set, the list ends with the masker so constructed.
\<close>

theorem mpi_read_masks_dla_limit:
  "dla_mask_limit None = 0.8
   \<and> (\<forall>x. dla_mask_limit (Some x) = x)
   \<and> (\<forall>limit t p. dla_pixel limit t p =
         (if t < limit then p\<lparr>pixel_ivar := 0\<rparr>
          else \<lparr>pixel_flux = pixel_flux p / t ^ 2, pixel_ivar = pixel_ivar p / t ^ 2\<rparr>))
   \<and> (\<forall>f ids r x. NewDLAMask f ids r x
           \<in> set (snd (mpi_read_masks (E :: ('c, 's, 't, 'sky, 'dla, 'q, 'v) env)
                       local_queue args mpi_rank)) \<longrightarrow>
        x = 0.8 \<and> x = dla_mask_limit None \<and> dla_mask args = Some f
        \<and> ids = concat (map (TARGETID E) local_queue) \<and> r = mpi_rank
        \<and> (\<forall>t p. t < 0.8 \<longrightarrow>
              dla_pixel (dla_mask_limit (Some x)) t p = p\<lparr>pixel_ivar := 0\<rparr>)
        \<and> (\<forall>t p. \<not> t < 0.8 \<longrightarrow>
              dla_pixel (dla_mask_limit (Some x)) t p =
                \<lparr>pixel_flux = pixel_flux p / t ^ 2, pixel_ivar = pixel_ivar p / t ^ 2\<rparr>))
   \<and> (truthy_str (dla_mask args) \<longrightarrow>
        (\<forall>maskers. fst (mpi_read_masks E local_queue args mpi_rank) = Inr maskers \<longrightarrow>
           (\<exists>f dlamasker others.
              dla_mask args = Some f \<and> maskers = others @ [DLAMasker dlamasker]
              \<and> DLAMask E f (concat (map (TARGETID E) local_queue)) mpi_rank (8 / 10) =
                  Inr dlamasker
              \<and> NewDLAMask f (concat (map (TARGETID E) local_queue)) mpi_rank (8 / 10)
                  \<in> set (snd (mpi_read_masks E local_queue args mpi_rank)))))
   \<and> (\<forall>cat others before mid m.
        truthy_str (dla_mask args) \<and> local_queue = cat # others
        \<and> (\<not> truthy_str (sky_mask args) \<and> before = []
            \<or> truthy_str (sky_mask args) \<and> SkyMask E (the (sky_mask args)) = Inr m
               \<and> before = [SkyMasker m])
        \<and> (\<not> bal_mask args \<and> mid = before
            \<or> bal_mask args \<and> check_catalog E cat = Inr () \<and> mid = before @ [BALMaskClass]) \<longrightarrow>
          count_list (snd (mpi_read_masks E local_queue args mpi_rank))
            (NewDLAMask (the (dla_mask args)) (concat (map (TARGETID E) local_queue))
               mpi_rank 0.8) = 1
        \<and> (\<forall>d. DLAMask E (the (dla_mask args)) (concat (map (TARGETID E) local_queue))
                  mpi_rank 0.8 = Inr d \<longrightarrow>
              fst (mpi_read_masks E local_queue args mpi_rank) = Inr (mid @ [DLAMasker d]))
        \<and> (\<forall>e. DLAMask E (the (dla_mask args)) (concat (map (TARGETID E) local_queue))
                  mpi_rank 0.8 = Inl e \<longrightarrow>
              fst (mpi_read_masks E local_queue args mpi_rank) = Inl e))"
proof (intro impI conjI allI)
  show "dla_mask_limit None = 0.8" by (simp add: dla_mask_limit_def)
  show "dla_mask_limit (Some x) = x" for x by (simp add: dla_mask_limit_def)
  show "dla_pixel limit t p =
         (if t < limit then p\<lparr>pixel_ivar := 0\<rparr>
          else \<lparr>pixel_flux = pixel_flux p / t ^ 2, pixel_ivar = pixel_ivar p / t ^ 2\<rparr>)"
    for limit t p
    by (simp add: dla_pixel_def)
next
  fix f ids r x
  assume ev: "NewDLAMask f ids r x \<in> set (snd (mpi_read_masks E local_queue args mpi_rank))"
  then show x: "x = 0.8"
    by (cases "dla_mask args"; cases local_queue)
      (auto simp: masks_simps first_item_simps split: sum.splits if_splits)
  then show "x = dla_mask_limit None" by (simp add: dla_mask_limit_def)
  from ev show "dla_mask args = Some f"
    by (cases "dla_mask args"; cases local_queue)
      (auto simp: masks_simps first_item_simps split: sum.splits if_splits)
  from ev show "ids = concat (map (TARGETID E) local_queue)"
    by (cases "dla_mask args"; cases local_queue)
      (auto simp: masks_simps first_item_simps split: sum.splits if_splits)
  from ev show "r = mpi_rank"
    by (cases "dla_mask args"; cases local_queue)
      (auto simp: masks_simps first_item_simps split: sum.splits if_splits)
  show "dla_pixel (dla_mask_limit (Some x)) t p = p\<lparr>pixel_ivar := 0\<rparr>" if "t < 0.8" for t p
    using that x by (simp add: dla_pixel_def dla_mask_limit_def)
  show "dla_pixel (dla_mask_limit (Some x)) t p =
          \<lparr>pixel_flux = pixel_flux p / t ^ 2, pixel_ivar = pixel_ivar p / t ^ 2\<rparr>"
    if "\<not> t < 0.8" for t p
    using that x by (simp add: dla_pixel_def dla_mask_limit_def)
next
  fix maskers
  assume "truthy_str (dla_mask args)"
    and "fst (mpi_read_masks E local_queue args mpi_rank) = Inr maskers"
  then show "\<exists>f dlamasker others.
              dla_mask args = Some f \<and> maskers = others @ [DLAMasker dlamasker]
              \<and> DLAMask E f (concat (map (TARGETID E) local_queue)) mpi_rank (8 / 10) =
                  Inr dlamasker
              \<and> NewDLAMask f (concat (map (TARGETID E) local_queue)) mpi_rank (8 / 10)
                  \<in> set (snd (mpi_read_masks E local_queue args mpi_rank))"
    by (cases "dla_mask args"; cases local_queue)
      (auto simp: masks_simps first_item_simps split: sum.splits if_splits)
next
  fix cat others m and before mid :: "('sky, 'dla) masker list"
  assume "truthy_str (dla_mask args) \<and> local_queue = cat # others
        \<and> (\<not> truthy_str (sky_mask args) \<and> before = []
            \<or> truthy_str (sky_mask args) \<and> SkyMask E (the (sky_mask args)) = Inr m
               \<and> before = [SkyMasker m])
        \<and> (\<not> bal_mask args \<and> mid = before
            \<or> bal_mask args \<and> check_catalog E cat = Inr () \<and> mid = before @ [BALMaskClass])"
  then show "count_list (snd (mpi_read_masks E local_queue args mpi_rank))
            (NewDLAMask (the (dla_mask args)) (concat (map (TARGETID E) local_queue))
               mpi_rank 0.8) = 1"
    by (auto simp: masks_simps first_item_simps split: sum.splits if_splits)
next
  fix cat others m d and before mid :: "('sky, 'dla) masker list"
  assume "truthy_str (dla_mask args) \<and> local_queue = cat # others
        \<and> (\<not> truthy_str (sky_mask args) \<and> before = []
            \<or> truthy_str (sky_mask args) \<and> SkyMask E (the (sky_mask args)) = Inr m
               \<and> before = [SkyMasker m])
        \<and> (\<not> bal_mask args \<and> mid = before
            \<or> bal_mask args \<and> check_catalog E cat = Inr () \<and> mid = before @ [BALMaskClass])"
    and "DLAMask E (the (dla_mask args)) (concat (map (TARGETID E) local_queue))
                  mpi_rank 0.8 = Inr d"
  then show "fst (mpi_read_masks E local_queue args mpi_rank) = Inr (mid @ [DLAMasker d])"
    by (auto simp: masks_simps first_item_simps split: sum.splits if_splits)
next
  fix cat others m e and before mid :: "('sky, 'dla) masker list"
  assume "truthy_str (dla_mask args) \<and> local_queue = cat # others
        \<and> (\<not> truthy_str (sky_mask args) \<and> before = []
            \<or> truthy_str (sky_mask args) \<and> SkyMask E (the (sky_mask args)) = Inr m
               \<and> before = [SkyMasker m])
        \<and> (\<not> bal_mask args \<and> mid = before
            \<or> bal_mask args \<and> check_catalog E cat = Inr () \<and> mid = before @ [BALMaskClass])"
    and "DLAMask E (the (dla_mask args)) (concat (map (TARGETID E) local_queue))
                  mpi_rank 0.8 = Inl e"
  then show "fst (mpi_read_masks E local_queue args mpi_rank) = Inl e"
    by (auto simp: masks_simps first_item_simps split: sum.splits if_splits)
qed

theorem mpi_read_masks_dla_limit_witness:
  "truthy_str (dla_mask demo_args)
   \<and> check_catalog (demo_env demo_args []) [(7, spec_a)] = Inr ()
   \<and> DLAMask (demo_env demo_args []) ''dla.fits'' [7] 0 0.8 = Inr 0.8
   \<and> count_list (snd (mpi_read_masks (demo_env demo_args []) [[(7, spec_a)]] demo_args 0))
        (NewDLAMask ''dla.fits'' [7] 0 0.8) = 1
   \<and> fst (mpi_read_masks (demo_env demo_args []) [[(7, spec_a)]] demo_args 0) =
       Inr [SkyMasker 2, BALMaskClass, DLAMasker 0.8]
   \<and> dla_pixel (dla_mask_limit (Some 0.8)) 0.5 \<lparr>pixel_flux = 3, pixel_ivar = 4\<rparr> =
       \<lparr>pixel_flux = 3, pixel_ivar = 0\<rparr>
   \<and> dla_pixel (dla_mask_limit (Some 0.8)) 1 \<lparr>pixel_flux = 3, pixel_ivar = 4\<rparr> =
       \<lparr>pixel_flux = 3, pixel_ivar = 4\<rparr>"
proof -
  note f = demo_queue_facts
  note T = mpi_read_masks_dla_limit
      [of "demo_env demo_args []" "[[(7, spec_a)]]" demo_args 0]
  have h: "truthy_str (dla_mask demo_args) \<and> [[(7, spec_a)]] = [(7::nat, spec_a)] # []
        \<and> (\<not> truthy_str (sky_mask demo_args) \<and> [SkyMasker 2] = []
            \<or> truthy_str (sky_mask demo_args)
               \<and> SkyMask (demo_env demo_args []) (the (sky_mask demo_args)) = Inr 2
               \<and> [SkyMasker (2::nat)] = [SkyMasker 2])
        \<and> (\<not> bal_mask demo_args \<and> [SkyMasker 2, BALMaskClass] = [SkyMasker 2]
            \<or> bal_mask demo_args \<and> check_catalog (demo_env demo_args []) [(7, spec_a)] = Inr ()
               \<and> [SkyMasker (2::nat), BALMaskClass] = [SkyMasker 2] @ [BALMaskClass])"
    using f by simp
  note D = T [THEN conjunct2, THEN conjunct2, THEN conjunct2, THEN conjunct2, THEN conjunct2,
      THEN spec, THEN spec, THEN spec, THEN spec, THEN spec, THEN mp, OF h]
  note c1 = D [THEN conjunct1]
  note r1 = D [THEN conjunct2, THEN conjunct1, THEN spec, THEN mp, OF f(3)]
  from c1 have ev: "NewDLAMask (the (dla_mask demo_args))
           (concat (map (TARGETID (demo_env demo_args [])) [[(7, spec_a)]])) 0 0.8
      \<in> set (snd (mpi_read_masks (demo_env demo_args []) [[(7, spec_a)]] demo_args 0))"
    by (metis count_list_0_iff zero_neq_one)
  note P = T [THEN conjunct2, THEN conjunct2, THEN conjunct2, THEN conjunct1,
      THEN spec, THEN spec, THEN spec, THEN spec, THEN mp, OF ev]
  note p1 = P [THEN conjunct2, THEN conjunct2, THEN conjunct2, THEN conjunct2, THEN conjunct2,
      THEN conjunct1, THEN spec, THEN spec, THEN mp]
  note p2 = P [THEN conjunct2, THEN conjunct2, THEN conjunct2, THEN conjunct2, THEN conjunct2,
      THEN conjunct2, THEN spec, THEN spec, THEN mp]
  have "(0.5 :: real) < 0.8" "\<not> (1 :: real) < 0.8" by simp_all
  from p1 [OF this(1), of "\<lparr>pixel_flux = 3, pixel_ivar = 4\<rparr>"]
    p2 [OF this(2), of "\<lparr>pixel_flux = 3, pixel_ivar = 4\<rparr>"] c1 r1 f(2,3,6)
  show ?thesis
    by (simp add: demo_fields demo_args_fields)
qed


lemma masked_state:
  "fst (and_then (apply_maskers E [SkyMasker sky, BALMaskClass, DLAMasker dla] spec)
          (on_object (DropShortArms (fst spec) None) (drop_short_arms E None))) = Inr spec' \<longleftrightarrow>
     (\<exists>s1 s2 s3 s4. sky_apply E sky (snd spec) = Inr s1 \<and> bal_apply E s1 = Inr s2
        \<and> dla_apply E dla s2 = Inr s3 \<and> drop_short_arms E None s3 = Inr s4
        \<and> spec' = (fst spec, s4))"
  by (auto simp: run_simps fst_on_object split: sum.splits)

lemma for_each_returns_iff:
  "fst (for_each f xs) = Inr ys \<longleftrightarrow> list_all2 (\<lambda>x y. fst (f x) = Inr y) xs ys"
  using for_each_returnsD [of f xs ys] for_each_returnsI [of f xs ys] by blast

lemma apply_masks_returns_iff:
  assumes "maskers \<noteq> []"
  shows "fst (apply_masks E maskers spectra_list r) = Inr result \<longleftrightarrow>
     list_all2
       (\<lambda>spec spec'. fst (and_then (apply_maskers E maskers spec)
            (on_object (DropShortArms (fst spec) None) (drop_short_arms E None))) = Inr spec')
       spectra_list result"
proof -
  let ?f = "\<lambda>spec. and_then (apply_maskers E maskers spec)
                (on_object (DropShortArms (fst spec) None) (drop_short_arms E None))"
  have "fst (apply_masks E maskers spectra_list r) = fst (for_each ?f spectra_list)"
    using assms by (simp add: apply_masks_def run_simps split: sum.splits)
  then show ?thesis
    by (simp add: for_each_returns_iff)
qed

lemma snd_for_each_Cons:
  "snd (for_each f (x # xs)) =
     (case fst (f x) of Inl e \<Rightarrow> snd (f x) | Inr y \<Rightarrow> snd (f x) @ snd (for_each f xs))"
  by (simp add: run_simps split: sum.splits)

lemma for_each_calls_prefix:
  assumes "\<And>x. x \<in> set xs \<Longrightarrow> \<exists>rest. g x = snd (f x) @ rest"
    and "\<And>x y. x \<in> set xs \<Longrightarrow> fst (f x) = Inr y \<Longrightarrow> snd (f x) = g x"
  shows "\<exists>rest. concat (map g xs) = snd (for_each f xs) @ rest"
  using assms
proof (induction xs)
  case Nil
  then show ?case by (simp add: run_simps)
next
  case (Cons x xs)
  show ?case
  proof (cases "fst (f x)")
    case (Inl e)
    from Cons.prems(1) [of x] obtain rest where "g x = snd (f x) @ rest" by auto
    with Inl show ?thesis by (simp del: for_each.simps add: snd_for_each_Cons)
  next
    case (Inr y)
    with Cons.prems(2) [of x y] have "snd (f x) = g x" by simp
    moreover from Cons.IH Cons.prems obtain rest
      where "concat (map g xs) = snd (for_each f xs) @ rest" by auto
    ultimately show ?thesis using Inr by (simp del: for_each.simps add: snd_for_each_Cons)
  qed
qed

lemma apply_masks_calls_prefix:
  assumes "maskers \<noteq> []"
  shows "\<exists>rest.
     [Log r Info Applying_masks]
     @ concat (map (\<lambda>spec. map (\<lambda>m. MaskerApply (kind m) (fst spec)) maskers
                         @ [DropShortArms (fst spec) None]) spectra_list)
     @ [Log r Info Masks_are_applied] = snd (apply_masks E maskers spectra_list r) @ rest"
proof -
  let ?f = "\<lambda>spec. and_then (apply_maskers E maskers spec)
                (on_object (DropShortArms (fst spec) None) (drop_short_arms E None))"
  let ?g = "\<lambda>spec. map (\<lambda>m. MaskerApply (kind m) (fst spec)) maskers
                         @ [DropShortArms (fst spec) None]"
  have 1: "\<exists>rest. ?g spec = snd (?f spec) @ rest" for spec
  proof (cases "fst (apply_maskers E maskers spec)")
    case (Inl e)
    from apply_maskers_calls_prefix [of E maskers spec] obtain n where
      n: "snd (apply_maskers E maskers spec) =
            take n (map (\<lambda>m. MaskerApply (kind m) (fst spec)) maskers)" by blast
    from Inl n have "snd (?f spec) = take n (map (\<lambda>m. MaskerApply (kind m) (fst spec)) maskers)"
      by (simp add: run_simps)
    then have "?g spec = snd (?f spec)
            @ (drop n (map (\<lambda>m. MaskerApply (kind m) (fst spec)) maskers)
               @ [DropShortArms (fst spec) None])"
      by simp
    then show ?thesis by (rule exI)
  next
    case (Inr spec')
    then show ?thesis
      by (simp add: run_simps snd_on_object apply_maskers_calls)
  qed
  have 2: "snd (?f spec) = ?g spec" if "fst (?f spec) = Inr y" for spec y
    using that by (auto simp: run_simps snd_on_object apply_maskers_calls split: sum.splits)
  from for_each_calls_prefix [of spectra_list ?g ?f] 1 2 obtain rest where
    rest: "concat (map ?g spectra_list) = snd (for_each ?f spectra_list) @ rest"
    by blast
  show ?thesis
  proof (cases "fst (for_each ?f spectra_list)")
    case (Inl e)
    with rest show ?thesis using assms by (simp add: apply_masks_def run_simps)
  next
    case (Inr ys)
    have each: "snd (?f spec) = ?g spec" if "spec \<in> set spectra_list" for spec
      using for_each_returns_each [OF Inr that] 2 by blast
    from Inr have "snd (for_each ?f spectra_list) = concat (map (\<lambda>x. snd (?f x)) spectra_list)"
      by (rule for_each_calls)
    also have "\<dots> = concat (map ?g spectra_list)"
      by (intro arg_cong [where f = concat] map_cong refl each)
    finally show ?thesis using Inr assms by (simp add: apply_masks_def run_simps)
  qed
qed


lemma all_masks_built:
  assumes "truthy_str (sky_mask args)" "bal_mask args" "truthy_str (dla_mask args)"
    and "local_queue = cat # others"
    and "SkyMask E (the (sky_mask args)) = Inr sky"
    and "check_catalog E cat = Inr ()"
    and "DLAMask E (the (dla_mask args)) (concat (map (TARGETID E) local_queue)) mpi_rank 0.8
           = Inr dla"
  shows "fst (mpi_read_masks E local_queue args mpi_rank) =
           Inr [SkyMasker sky, BALMaskClass, DLAMasker dla]"
  using assms by (auto simp: masks_simps first_item_simps split: sum.splits if_splits)

text \<open>
  Claim C2. With the sky, BAL and DLA masks all enabled, the list that \<open>mpi_read_masks\<close>
  returns is a sky masker, the BAL class, a DLA masker, in this order, and it returns this
  list whenever the three are built. For every Spectrum the maskers are applied front to
  back: the calls are a prefix of sky, BAL, DLA (all three unless one raises) and each masker
  works on the state the one before left. \<open>apply_masks\<close> returns exactly when, for every
  Spectrum of the list, sky, BAL, DLA and then \<open>drop_short_arms\<close> return, each on the state
  that the one before left; the list it returns holds these last states, in the order of the
  list. The calls of a run that returns are, for one Spectrum after the other, sky, BAL, DLA
  and \<open>drop_short_arms\<close>; the calls of any run are a prefix of these.
\<close>

theorem maskers_applied_in_order:
  "(truthy_str (sky_mask args) \<and> bal_mask args \<and> truthy_str (dla_mask args)
    \<and> fst (mpi_read_masks E local_queue args mpi_rank) = Inr maskers \<longrightarrow>
     (\<exists>sky dla. maskers = [SkyMasker sky, BALMaskClass, DLAMasker dla]
        \<and> (\<forall>spec spec'. fst (apply_maskers E maskers spec) = Inr spec' \<longleftrightarrow>
              (\<exists>s1 s2 s3. sky_apply E sky (snd spec) = Inr s1 \<and> bal_apply E s1 = Inr s2
                 \<and> dla_apply E dla s2 = Inr s3 \<and> spec' = (fst spec, s3)))
        \<and> (\<forall>spectra_list r result.
              fst (apply_masks E maskers spectra_list r) = Inr result \<longleftrightarrow>
              list_all2
                (\<lambda>spec spec'. \<exists>s1 s2 s3 s4.
                   sky_apply E sky (snd spec) = Inr s1 \<and> bal_apply E s1 = Inr s2
                   \<and> dla_apply E dla s2 = Inr s3 \<and> drop_short_arms E None s3 = Inr s4
                   \<and> spec' = (fst spec, s4))
                spectra_list result))
     \<and> (\<forall>spec. \<exists>n. snd (apply_maskers E maskers spec) =
            take n [MaskerApply Sky (fst spec), MaskerApply BAL (fst spec),
                    MaskerApply DLA (fst spec)])
     \<and> (\<forall>spectra_list r result.
            fst (apply_masks E maskers spectra_list r) = Inr result \<longrightarrow>
            snd (apply_masks E maskers spectra_list r) =
              [Log r Info Applying_masks]
              @ concat (map (\<lambda>spec. [MaskerApply Sky (fst spec), MaskerApply BAL (fst spec),
                                     MaskerApply DLA (fst spec), DropShortArms (fst spec) None])
                          spectra_list)
              @ [Log r Info Masks_are_applied])
     \<and> (\<forall>spectra_list r. \<exists>rest.
            [Log r Info Applying_masks]
            @ concat (map (\<lambda>spec. [MaskerApply Sky (fst spec), MaskerApply BAL (fst spec),
                                   MaskerApply DLA (fst spec), DropShortArms (fst spec) None])
                        spectra_list)
            @ [Log r Info Masks_are_applied] = snd (apply_masks E maskers spectra_list r) @ rest))
   \<and> (\<forall>cat others sky dla.
        truthy_str (sky_mask args) \<and> bal_mask args \<and> truthy_str (dla_mask args)
        \<and> local_queue = cat # others
        \<and> SkyMask E (the (sky_mask args)) = Inr sky
        \<and> check_catalog E cat = Inr ()
        \<and> DLAMask E (the (dla_mask args)) (concat (map (TARGETID E) local_queue)) mpi_rank 0.8
             = Inr dla \<longrightarrow>
        fst (mpi_read_masks E local_queue args mpi_rank) =
          Inr [SkyMasker sky, BALMaskClass, DLAMasker dla])"
proof (rule conjI)
  show "\<forall>cat others sky dla.
        truthy_str (sky_mask args) \<and> bal_mask args \<and> truthy_str (dla_mask args)
        \<and> local_queue = cat # others
        \<and> SkyMask E (the (sky_mask args)) = Inr sky
        \<and> check_catalog E cat = Inr ()
        \<and> DLAMask E (the (dla_mask args)) (concat (map (TARGETID E) local_queue)) mpi_rank 0.8
             = Inr dla \<longrightarrow>
        fst (mpi_read_masks E local_queue args mpi_rank) =
          Inr [SkyMasker sky, BALMaskClass, DLAMasker dla]"
    using all_masks_built [of args local_queue _ _ E _ mpi_rank] by blast
next
  show "truthy_str (sky_mask args) \<and> bal_mask args \<and> truthy_str (dla_mask args)
    \<and> fst (mpi_read_masks E local_queue args mpi_rank) = Inr maskers \<longrightarrow>
     (\<exists>sky dla. maskers = [SkyMasker sky, BALMaskClass, DLAMasker dla]
        \<and> (\<forall>spec spec'. fst (apply_maskers E maskers spec) = Inr spec' \<longleftrightarrow>
              (\<exists>s1 s2 s3. sky_apply E sky (snd spec) = Inr s1 \<and> bal_apply E s1 = Inr s2
                 \<and> dla_apply E dla s2 = Inr s3 \<and> spec' = (fst spec, s3)))
        \<and> (\<forall>spectra_list r result.
              fst (apply_masks E maskers spectra_list r) = Inr result \<longleftrightarrow>
              list_all2
                (\<lambda>spec spec'. \<exists>s1 s2 s3 s4.
                   sky_apply E sky (snd spec) = Inr s1 \<and> bal_apply E s1 = Inr s2
                   \<and> dla_apply E dla s2 = Inr s3 \<and> drop_short_arms E None s3 = Inr s4
                   \<and> spec' = (fst spec, s4))
                spectra_list result))
     \<and> (\<forall>spec. \<exists>n. snd (apply_maskers E maskers spec) =
            take n [MaskerApply Sky (fst spec), MaskerApply BAL (fst spec),
                    MaskerApply DLA (fst spec)])
     \<and> (\<forall>spectra_list r result.
            fst (apply_masks E maskers spectra_list r) = Inr result \<longrightarrow>
            snd (apply_masks E maskers spectra_list r) =
              [Log r Info Applying_masks]
              @ concat (map (\<lambda>spec. [MaskerApply Sky (fst spec), MaskerApply BAL (fst spec),
                                     MaskerApply DLA (fst spec), DropShortArms (fst spec) None])
                          spectra_list)
              @ [Log r Info Masks_are_applied])
     \<and> (\<forall>spectra_list r. \<exists>rest.
            [Log r Info Applying_masks]
            @ concat (map (\<lambda>spec. [MaskerApply Sky (fst spec), MaskerApply BAL (fst spec),
                                   MaskerApply DLA (fst spec), DropShortArms (fst spec) None])
                        spectra_list)
            @ [Log r Info Masks_are_applied] = snd (apply_masks E maskers spectra_list r) @ rest)"
  proof (intro impI, elim conjE)
    assume en: "truthy_str (sky_mask args)" "bal_mask args" "truthy_str (dla_mask args)"
      and rd: "fst (mpi_read_masks E local_queue args mpi_rank) = Inr maskers"
    from all_masks_read [OF en rd] obtain sky dla
      where ms: "maskers = [SkyMasker sky, BALMaskClass, DLAMasker dla]" by blast
    then have ne: "maskers \<noteq> []" by simp
    have a1: "\<forall>spec spec'. fst (apply_maskers E maskers spec) = Inr spec' \<longleftrightarrow>
              (\<exists>s1 s2 s3. sky_apply E sky (snd spec) = Inr s1 \<and> bal_apply E s1 = Inr s2
                 \<and> dla_apply E dla s2 = Inr s3 \<and> spec' = (fst spec, s3))"
      using ms apply_three_maskers [of E sky dla] by blast
    have a2: "\<forall>spectra_list r result.
              fst (apply_masks E maskers spectra_list r) = Inr result \<longleftrightarrow>
              list_all2
                (\<lambda>spec spec'. \<exists>s1 s2 s3 s4.
                   sky_apply E sky (snd spec) = Inr s1 \<and> bal_apply E s1 = Inr s2
                   \<and> dla_apply E dla s2 = Inr s3 \<and> drop_short_arms E None s3 = Inr s4
                   \<and> spec' = (fst spec, s4))
                spectra_list result"
      unfolding apply_masks_returns_iff [OF ne] unfolding ms masked_state by blast
    have b: "\<exists>n. snd (apply_maskers E maskers spec) =
            take n [MaskerApply Sky (fst spec), MaskerApply BAL (fst spec),
                    MaskerApply DLA (fst spec)]" for spec
      using apply_maskers_calls_prefix [of E maskers spec] by (simp add: ms)
    have c: "snd (apply_masks E maskers spectra_list r) =
              [Log r Info Applying_masks]
              @ concat (map (\<lambda>spec. [MaskerApply Sky (fst spec), MaskerApply BAL (fst spec),
                                     MaskerApply DLA (fst spec), DropShortArms (fst spec) None])
                          spectra_list)
              @ [Log r Info Masks_are_applied]"
      if "fst (apply_masks E maskers spectra_list r) = Inr result" for spectra_list r result
      using apply_masks_calls [of maskers E spectra_list r result] that by (simp add: ms)
    have d: "\<exists>rest.
            [Log r Info Applying_masks]
            @ concat (map (\<lambda>spec. [MaskerApply Sky (fst spec), MaskerApply BAL (fst spec),
                                   MaskerApply DLA (fst spec), DropShortArms (fst spec) None])
                        spectra_list)
            @ [Log r Info Masks_are_applied] = snd (apply_masks E maskers spectra_list r) @ rest"
      for spectra_list r
      using apply_masks_calls_prefix [OF ne, of r spectra_list E] by (simp add: ms)
    from ms a1 a2 have a: "\<exists>sky dla. maskers = [SkyMasker sky, BALMaskClass, DLAMasker dla]
        \<and> (\<forall>spec spec'. fst (apply_maskers E maskers spec) = Inr spec' \<longleftrightarrow>
              (\<exists>s1 s2 s3. sky_apply E sky (snd spec) = Inr s1 \<and> bal_apply E s1 = Inr s2
                 \<and> dla_apply E dla s2 = Inr s3 \<and> spec' = (fst spec, s3)))
        \<and> (\<forall>spectra_list r result.
              fst (apply_masks E maskers spectra_list r) = Inr result \<longleftrightarrow>
              list_all2
                (\<lambda>spec spec'. \<exists>s1 s2 s3 s4.
                   sky_apply E sky (snd spec) = Inr s1 \<and> bal_apply E s1 = Inr s2
                   \<and> dla_apply E dla s2 = Inr s3 \<and> drop_short_arms E None s3 = Inr s4
                   \<and> spec' = (fst spec, s4))
                spectra_list result)"
      by (intro exI conjI)
    show "(\<exists>sky dla. maskers = [SkyMasker sky, BALMaskClass, DLAMasker dla]
        \<and> (\<forall>spec spec'. fst (apply_maskers E maskers spec) = Inr spec' \<longleftrightarrow>
              (\<exists>s1 s2 s3. sky_apply E sky (snd spec) = Inr s1 \<and> bal_apply E s1 = Inr s2
                 \<and> dla_apply E dla s2 = Inr s3 \<and> spec' = (fst spec, s3)))
        \<and> (\<forall>spectra_list r result.
              fst (apply_masks E maskers spectra_list r) = Inr result \<longleftrightarrow>
              list_all2
                (\<lambda>spec spec'. \<exists>s1 s2 s3 s4.
                   sky_apply E sky (snd spec) = Inr s1 \<and> bal_apply E s1 = Inr s2
                   \<and> dla_apply E dla s2 = Inr s3 \<and> drop_short_arms E None s3 = Inr s4
                   \<and> spec' = (fst spec, s4))
                spectra_list result))
     \<and> (\<forall>spec. \<exists>n. snd (apply_maskers E maskers spec) =
            take n [MaskerApply Sky (fst spec), MaskerApply BAL (fst spec),
                    MaskerApply DLA (fst spec)])
     \<and> (\<forall>spectra_list r result.
            fst (apply_masks E maskers spectra_list r) = Inr result \<longrightarrow>
            snd (apply_masks E maskers spectra_list r) =
              [Log r Info Applying_masks]
              @ concat (map (\<lambda>spec. [MaskerApply Sky (fst spec), MaskerApply BAL (fst spec),
                                     MaskerApply DLA (fst spec), DropShortArms (fst spec) None])
                          spectra_list)
              @ [Log r Info Masks_are_applied])
     \<and> (\<forall>spectra_list r. \<exists>rest.
            [Log r Info Applying_masks]
            @ concat (map (\<lambda>spec. [MaskerApply Sky (fst spec), MaskerApply BAL (fst spec),
                                   MaskerApply DLA (fst spec), DropShortArms (fst spec) None])
                        spectra_list)
            @ [Log r Info Masks_are_applied] = snd (apply_masks E maskers spectra_list r) @ rest)"
      using a b c d by (intro conjI allI impI)
  qed
qed

theorem maskers_applied_in_order_witness:
  "truthy_str (sky_mask demo_args) \<and> bal_mask demo_args \<and> truthy_str (dla_mask demo_args)
   \<and> fst (mpi_read_masks (demo_env demo_args []) [[(7, spec_a)]] demo_args 0) =
       Inr [SkyMasker 2, BALMaskClass, DLAMasker 0.8]
   \<and> fst (apply_masks (demo_env demo_args []) [SkyMasker 2, BALMaskClass, DLAMasker 0.8]
          [(0, spec_a), (1, spec_c)] 0) =
       Inr [(0, \<lparr>snr = 3, pixels = [(''B'', [1, 1, 0]), (''R'', [1, 1, 0, 1])], fit_ok = True\<rparr>),
            (1, \<lparr>snr = 2, pixels = [(''R'', [1, 1, 0])], fit_ok = False\<rparr>)]
   \<and> snd (apply_masks (demo_env demo_args []) [SkyMasker 2, BALMaskClass, DLAMasker 0.8]
          [(0, spec_a), (1, spec_c)] 0) =
       [Log 0 Info Applying_masks,
        MaskerApply Sky 0, MaskerApply BAL 0, MaskerApply DLA 0, DropShortArms 0 None,
        MaskerApply Sky 1, MaskerApply BAL 1, MaskerApply DLA 1, DropShortArms 1 None,
        Log 0 Info Masks_are_applied]"
proof -
  note f = demo_queue_facts
  let ?E = "demo_env demo_args []"
  let ?ms = "[SkyMasker (2::nat), BALMaskClass, DLAMasker (0.8::real)]"
  let ?l = "[(0::nat, spec_a), (1, spec_c)]"
  let ?res = "[(0::nat, drop_arms 2 (mask_pixel 2 spec_a)), (1, drop_arms 2 (mask_pixel 2 spec_c))]"
  note T = maskers_applied_in_order [of demo_args ?E "[[(7, spec_a)]]" 0 ?ms]
  have h: "truthy_str (sky_mask demo_args) \<and> bal_mask demo_args \<and> truthy_str (dla_mask demo_args)
        \<and> [[(7, spec_a)]] = [(7::nat, spec_a)] # []
        \<and> SkyMask ?E (the (sky_mask demo_args)) = Inr 2
        \<and> check_catalog ?E [(7, spec_a)] = Inr ()
        \<and> DLAMask ?E (the (dla_mask demo_args))
             (concat (map (TARGETID ?E) [[(7, spec_a)]])) 0 0.8 = Inr 0.8"
    using f by blast
  note rd = T [THEN conjunct2, THEN spec, THEN spec, THEN spec, THEN spec, THEN mp, OF h]
  have H: "truthy_str (sky_mask demo_args) \<and> bal_mask demo_args \<and> truthy_str (dla_mask demo_args)
    \<and> fst (mpi_read_masks ?E [[(7, spec_a)]] demo_args 0) = Inr ?ms"
    using f(4,5,6) rd by blast
  note X = T [THEN conjunct1, THEN mp, OF H]
  from X [THEN conjunct1] obtain sky dla where
    ms: "?ms = [SkyMasker sky, BALMaskClass, DLAMasker dla]"
    and iff: "\<forall>spectra_list r result.
          fst (apply_masks ?E ?ms spectra_list r) = Inr result \<longleftrightarrow>
              list_all2
                (\<lambda>spec spec'. \<exists>s1 s2 s3 s4.
                   sky_apply ?E sky (snd spec) = Inr s1 \<and> bal_apply ?E s1 = Inr s2
                   \<and> dla_apply ?E dla s2 = Inr s3 \<and> drop_short_arms ?E None s3 = Inr s4
                   \<and> spec' = (fst spec, s4))
                spectra_list result"
    by (elim exE conjE)
  note tr = X [THEN conjunct2, THEN conjunct2, THEN conjunct1, THEN spec, THEN spec, THEN spec,
      THEN mp]
  from ms have sd: "sky = 2" "dla = 0.8" by simp_all
  have la: "list_all2
                (\<lambda>spec spec'. \<exists>s1 s2 s3 s4.
                   sky_apply ?E sky (snd spec) = Inr s1 \<and> bal_apply ?E s1 = Inr s2
                   \<and> dla_apply ?E dla s2 = Inr s3 \<and> drop_short_arms ?E None s3 = Inr s4
                   \<and> spec' = (fst spec, s4)) ?l ?res"
    by (simp add: sd demo_fields)
  note ap = iff [THEN spec, THEN spec, THEN spec, THEN iffD2, OF la, of 0]
  from tr [OF ap] ap rd f(4,5,6) show ?thesis
    by (simp add: demo_masked)
qed

lemma main_cases:
  "main E =
     (case fst (mpi_run_all E (Get_rank E) (Get_size E)) of
        Inr u \<Rightarrow> (Inr 0, snd (mpi_run_all E (Get_rank E) (Get_size E)))
      | Inl e \<Rightarrow>
          if is_Exception e
          then (Inr 1, snd (mpi_run_all E (Get_rank E) (Get_size E))
                  @ [Log (Get_rank E) Error (Message (exn_str e))])
          else (Inl e, snd (mpi_run_all E (Get_rank E) (Get_size E))))"
  by (cases "mpi_run_all E (Get_rank E) (Get_size E)")
    (auto simp: main_def Let_def split: sum.splits)

lemma parse_raises:
  "mpi_parse E r = Inl e \<Longrightarrow> mpi_run_all E r n = (Inl e, [MpiParse r])"
  by (simp add: mpi_run_all_def read_inputs_def call_def)

subsection \<open>main\<close>

text \<open>
  Claim C7, amended. If \<open>mpi_run_all\<close> raises an exception that is an instance of Python's
  class Exception, \<open>main\<close> catches it, logs its text at level error after the calls made so
  far, and returns 1. An exception that is not an instance of Exception (SystemExit,
  KeyboardInterrupt) is not caught: it leaves \<open>main\<close>, nothing is logged and no status is
  returned. If \<open>mpi_run_all\<close> returns, \<open>main\<close> returns 0 and logs nothing more. An exception
  of the first stage, the parsing of the options, is an exception of \<open>mpi_run_all\<close>.
\<close>

theorem main_catches_Exception:
  "(\<forall>e. fst (mpi_run_all E (Get_rank E) (Get_size E)) = Inl e \<and> is_Exception e \<longrightarrow>
      main E = (Inr 1, snd (mpi_run_all E (Get_rank E) (Get_size E))
                  @ [Log (Get_rank E) Error (Message (exn_str e))]))
   \<and> (\<forall>e. fst (mpi_run_all E (Get_rank E) (Get_size E)) = Inl e \<and> \<not> is_Exception e \<longrightarrow>
      main E = (Inl e, snd (mpi_run_all E (Get_rank E) (Get_size E))))
   \<and> (fst (mpi_run_all E (Get_rank E) (Get_size E)) = Inr () \<longrightarrow>
      main E = (Inr 0, snd (mpi_run_all E (Get_rank E) (Get_size E))))
   \<and> (\<forall>e. mpi_parse E (Get_rank E) = Inl e \<longrightarrow>
        fst (mpi_run_all E (Get_rank E) (Get_size E)) = Inl e)"
  by (auto simp: main_cases parse_raises)

lemma demo_states:
  "drop_arms 2 (mask_pixel 2 spec_a) =
     \<lparr>snr = 3, pixels = [(''B'', [1, 1, 0]), (''R'', [1, 1, 0, 1])], fit_ok = True\<rparr>"
  "drop_arms 2 (mask_pixel 2 spec_d) =
     \<lparr>snr = 2, pixels = [(''B'', [1, 1, 0, 1]), (''R'', [1, 1, 0, 1])], fit_ok = False\<rparr>"
  "drop_arms 2 \<lparr>snr = 3, pixels = [(''B'', [1, 1, 0]), (''R'', [1, 1, 0, 1])], fit_ok = True\<rparr> =
     \<lparr>snr = 3, pixels = [(''B'', [1, 1, 0]), (''R'', [1, 1, 0, 1])], fit_ok = True\<rparr>"
  by (simp_all add: drop_arms_def mask_pixel_def spec_a_def spec_d_def valid_pixels_def
      numeral_2_eq_2)

lemma demo_read_inputs:
  "read_inputs (demo_env demo_args demo_queue) 0 1 =
     (Inr (demo_args, [SkyMasker 2, BALMaskClass, DLAMasker 0.8], [(0, spec_a), (2, spec_d)]),
      [MpiParse 0, Makedirs ''out'', ReadCatalog ''cat.fits'', SetBlinding,
       Log 0 Info Reading_sky_mask, NewSkyMask ''sky.txt'', Log 0 Info Checking_BAL_mask,
       CheckCatalog [(7, spec_a), (8, spec_b)], Log 0 Info Reading_DLA_mask,
       NewDLAMask ''dla.fits'' [7, 8, 9] 0 0.8,
       Log 0 Info Reading_spectra,
       ReadSpectra [(7, spec_a), (8, spec_b)],
       SetForestRegion 0, RemoveNonforestPixels 0, SetForestRegion 1, RemoveNonforestPixels 1,
       ReadSpectra [(9, spec_d)],
       SetForestRegion 2, RemoveNonforestPixels 2,
       CommReduce 2, Log 0 Info All_spectra_are_read])"
  by (simp add: read_inputs_def mpi_read_masks_def mpi_read_spectra_local_queue_def
      forest_spec_def on_object_def new_objects_def
      demo_fields demo_args_fields first_item_simps np_concatenate_def demo_queue_def
      ret_def emit_def call_def spec_a_def spec_b_def spec_d_def demo_args_def upt_rec)


lemma demo_mutated: "mutated [(0, a), (2, b)] (\<lambda>i. [a, b] ! i) = [(0, a), (2, b)]"
  by (simp add: mutated_def upt_rec)

lemma demo_rest:
  "run_from_apply_masks (demo_env demo_args demo_queue) demo_args
     [SkyMasker 2, BALMaskClass, DLAMasker 0.8] [(0, spec_a), (2, spec_d)] 0 =
     (Inr (),
      [Log 0 Info Applying_masks,
       MaskerApply Sky 0, MaskerApply BAL 0, MaskerApply DLA 0, DropShortArms 0 None,
       MaskerApply Sky 2, MaskerApply BAL 2, MaskerApply DLA 2, DropShortArms 2 None,
       Log 0 Info Masks_are_applied,
       Log 0 Info Removing_short_spectra, IsLong 0, IsLong 2,
       SetSmoothIvar 0, SetSmoothIvar 2,
       Log 0 Info Initializing_continuum_fitter, NewFitter, Log 0 Info Fitting_continuum,
       Iterate [0, 2], ValidSpectra [0, 2],
       Log 0 Info Coadding_arms, CoaddArmsForest 0,
       DropShortArms 0 (Some (1040, 1200, Some (1 / 50))),
       Log 0 Info Continuum_fitting_took, Log 0 Info Saving_deltas,
       SaveDeltas [(0, \<lparr>snr = 3, pixels = [(''B'', [1, 1, 0]), (''R'', [1, 1, 0, 1])],
                         fit_ok = True\<rparr>)]])"
  by (simp add: run_from_apply_masks_def apply_masks_def run_from_remove_short_def
      remove_short_spectra_def set_smooth_ivar_all_def fit_continuum_def run_from_valid_def
      valid_spectra_def coadd_arms_all_def final_cleaning_def save_all_def
      on_object_def demo_fields demo_is_long demo_args_fields demo_states demo_mutated
      ret_def emit_def call_def)

lemma demo_run:
  "mpi_run_all (demo_env demo_args demo_queue) 0 1 =
     (Inr (),
      [MpiParse 0, Makedirs ''out'', ReadCatalog ''cat.fits'', SetBlinding,
       Log 0 Info Reading_sky_mask, NewSkyMask ''sky.txt'', Log 0 Info Checking_BAL_mask,
       CheckCatalog [(7, spec_a), (8, spec_b)], Log 0 Info Reading_DLA_mask,
       NewDLAMask ''dla.fits'' [7, 8, 9] 0 0.8,
       Log 0 Info Reading_spectra,
       ReadSpectra [(7, spec_a), (8, spec_b)],
       SetForestRegion 0, RemoveNonforestPixels 0, SetForestRegion 1, RemoveNonforestPixels 1,
       ReadSpectra [(9, spec_d)],
       SetForestRegion 2, RemoveNonforestPixels 2,
       CommReduce 2, Log 0 Info All_spectra_are_read,
       Log 0 Info Applying_masks,
       MaskerApply Sky 0, MaskerApply BAL 0, MaskerApply DLA 0, DropShortArms 0 None,
       MaskerApply Sky 2, MaskerApply BAL 2, MaskerApply DLA 2, DropShortArms 2 None,
       Log 0 Info Masks_are_applied,
       Log 0 Info Removing_short_spectra, IsLong 0, IsLong 2,
       SetSmoothIvar 0, SetSmoothIvar 2,
       Log 0 Info Initializing_continuum_fitter, NewFitter, Log 0 Info Fitting_continuum,
       Iterate [0, 2], ValidSpectra [0, 2],
       Log 0 Info Coadding_arms, CoaddArmsForest 0,
       DropShortArms 0 (Some (1040, 1200, Some (1 / 50))),
       Log 0 Info Continuum_fitting_took, Log 0 Info Saving_deltas,
       SaveDeltas [(0, \<lparr>snr = 3, pixels = [(''B'', [1, 1, 0]), (''R'', [1, 1, 0, 1])],
                         fit_ok = True\<rparr>)]])"
  unfolding mpi_run_all_def demo_read_inputs
  by (simp only: and_then.simps fst_conv snd_conv demo_rest append.simps)


lemma demo_run_empty:
  "mpi_run_all (demo_env demo_args []) 0 1 =
     (Inl IndexError,
      [MpiParse 0, Makedirs ''out'', ReadCatalog ''cat.fits'', SetBlinding,
       Log 0 Info Reading_sky_mask, NewSkyMask ''sky.txt'', Log 0 Info Checking_BAL_mask])"
  by (simp add: mpi_run_all_def read_inputs_def mpi_read_masks_def
      demo_fields demo_args_fields demo_args_def first_item_simps ret_def emit_def call_def)

theorem main_catches_Exception_witness:
  "is_Exception IndexError
   \<and> fst (mpi_run_all (demo_env demo_args []) 0 1) = Inl IndexError
   \<and> main (demo_env demo_args []) =
       (Inr 1,
        [MpiParse 0, Makedirs ''out'', ReadCatalog ''cat.fits'', SetBlinding,
         Log 0 Info Reading_sky_mask, NewSkyMask ''sky.txt'', Log 0 Info Checking_BAL_mask,
         Log 0 Error (Message ''list index out of range'')])
   \<and> fst (mpi_run_all (demo_env demo_args demo_queue) 0 1) = Inr ()
   \<and> fst (main (demo_env demo_args demo_queue)) = Inr 0"
proof -
  note T1 = main_catches_Exception [of "demo_env demo_args []", unfolded demo_fields(1,2)]
  note T2 = main_catches_Exception [of "demo_env demo_args demo_queue", unfolded demo_fields(1,2)]
  have e: "fst (mpi_run_all (demo_env demo_args []) 0 1) = Inl IndexError \<and> is_Exception IndexError"
    by (simp only: demo_run_empty fst_conv is_Exception.simps simp_thms)
  have ok: "fst (mpi_run_all (demo_env demo_args demo_queue) 0 1) = Inr ()"
    by (simp only: demo_run fst_conv)
  note m1 = T1 [THEN conjunct1, THEN spec, THEN mp, OF e,
      unfolded demo_run_empty snd_conv exn_str.simps append.simps]
  note m2 = T2 [THEN conjunct2, THEN conjunct2, THEN conjunct1, THEN mp, OF ok]
  have a: "fst (main (demo_env demo_args demo_queue)) = Inr 0"
    by (simp only: m2 fst_conv)
  from e ok m1 a show ?thesis by blast
qed

text \<open>
  The claim as stated fails: a KeyboardInterrupt raised while the options are parsed leaves
  \<open>main\<close>, which returns no status.
\<close>

theorem main_KeyboardInterrupt_leaves:
  "mpi_parse (demo_env demo_args []\<lparr>mpi_parse := \<lambda>r. Inl KeyboardInterrupt\<rparr>) 0
     = Inl KeyboardInterrupt
   \<and> fst (mpi_run_all (demo_env demo_args []\<lparr>mpi_parse := \<lambda>r. Inl KeyboardInterrupt\<rparr>) 0 1)
     = Inl KeyboardInterrupt
   \<and> main (demo_env demo_args []\<lparr>mpi_parse := \<lambda>r. Inl KeyboardInterrupt\<rparr>) =
       (Inl KeyboardInterrupt, [MpiParse 0])
   \<and> fst (main (demo_env demo_args []\<lparr>mpi_parse := \<lambda>r. Inl KeyboardInterrupt\<rparr>)) \<noteq> Inr 1"
  by (simp add: main_cases parse_raises demo_env_def)

subsection \<open>Stages\<close>











lemma from_stage_mono:
  "from_stage S' t \<Longrightarrow> stage_rank S \<le> stage_rank S' \<Longrightarrow> from_stage S t"
  by (auto simp: from_stage_def list_all_iff)


























subsection \<open>Which objects a stage touches\<close>






lemma for_each_objects:
  "fst (for_each (\<lambda>spec. on_object (h spec) g spec) xs) = Inr ys
     \<Longrightarrow> list_all2 (\<lambda>x y. fst y = fst x \<and> g (snd x) = Inr (snd y)) xs ys"
proof (induction xs arbitrary: ys)
  case Nil
  then show ?case by (simp add: run_simps)
next
  case (Cons x xs)
  then show ?case
    by (auto simp: run_simps fst_on_object split: sum.splits)
qed

lemma list_all2_ids: "list_all2 (\<lambda>x y. fst y = fst x \<and> Q x y) xs ys \<Longrightarrow> map fst ys = map fst xs"
  by (induction xs ys rule: list_all2_induct) auto

lemma for_each_ids:
  "fst (for_each (\<lambda>spec. on_object (h spec) g spec) xs) = Inr ys \<Longrightarrow> map fst ys = map fst xs"
  by (drule for_each_objects) (rule list_all2_ids)



lemma smooth_ids:
  "fst (set_smooth_ivar_all E l) = Inr l' \<Longrightarrow> map fst l' = map fst l"
  unfolding set_smooth_ivar_all_def by (rule for_each_ids)






















subsection \<open>The order of the stages\<close>




end
